theory Spec2Isabelle
  imports Main "HOL-Library.Sublist"
begin

section \<open>The report field and operator resolution engine of \<open>handleCreateReport\<close>\<close>

text \<open>
  A shallow embedding of \<open>handleCreateReport\<close> (\<open>src/tools/createFlow.ts\<close>, lines 291--719)
  and of the \<open>salesforce_create_report\<close> case of the dispatcher (\<open>src/index.ts\<close>).

  Conventions of the embedding.
  \<^item> A JavaScript string is a \<open>string\<close>; the case conversions and the whitespace class are
    those of the ASCII range, the only characters on which the model follows JavaScript.
  \<^item> An optional value (\<open>undefined\<close>) is \<open>None\<close>; where the source distinguishes \<open>null\<close>
    from \<open>undefined\<close> the type says so.
  \<^item> An object used as a dictionary (\<open>fieldMap\<close>, \<open>fieldTypeMap\<close>, the operator table, the
    column catalogs of the schema description) is an association list in enumeration
    order: assigning to an existing key keeps its place, a new key goes to the end. Keys
    that are array indices (which JavaScript enumerates first) are outside the model. The
    index is read under the identifier as the caller wrote it, so that read also answers
    the member names of \<open>Object.prototype\<close>; every other read of a dictionary is under an
    upper-cased key or a data type of the schema, and is a read of the own keys.
  \<^item> The arguments have the shape \<open>CreateReportArgs\<close> declares. An entry of a grouping array
    (typed \<open>any\<close>) is null or undefined (\<open>None\<close>) or a record of the properties the handler
    reads.
  \<^item> A thrown exception is the \<open>Inl\<close> of a sum; the remote calls of \<open>conn\<close> are functions of
    the connection record that either reject (\<open>Inl\<close>) or resolve (\<open>Inr\<close>).
  \<^item> The \<open>console.error\<close> tracing has no counterpart.
\<close>

subsection \<open>Strings\<close>

definition toUpperChar :: "char \<Rightarrow> char" where
  "toUpperChar c =
     (case map_of (zip ''abcdefghijklmnopqrstuvwxyz'' ''ABCDEFGHIJKLMNOPQRSTUVWXYZ'') c of
        Some u \<Rightarrow> u | None \<Rightarrow> c)"

definition toLowerChar :: "char \<Rightarrow> char" where
  "toLowerChar c =
     (case map_of (zip ''ABCDEFGHIJKLMNOPQRSTUVWXYZ'' ''abcdefghijklmnopqrstuvwxyz'') c of
        Some l \<Rightarrow> l | None \<Rightarrow> c)"

definition toUpperCase :: "string \<Rightarrow> string" where
  "toUpperCase s = map toUpperChar s"

definition toLowerCase :: "string \<Rightarrow> string" where
  "toLowerCase s = map toLowerChar s"

text \<open>The class \<open>\s\<close> of a regular expression, and what \<open>trim\<close> removes: tab, line feed,
  vertical tab, form feed, carriage return, space.\<close>

definition isSpace :: "char \<Rightarrow> bool" where
  "isSpace c = (c \<in> set [CHR 0x09, CHR 0x0A, CHR 0x0B, CHR 0x0C, CHR 0x0D, CHR 0x20])"

definition trim :: "string \<Rightarrow> string" where
  "trim s = rev (dropWhile isSpace (rev (dropWhile isSpace s)))"

text \<open>\<open>op.toLowerCase().replace(/\s|_/g, '')\<close>\<close>

definition normalizeOp :: "string \<Rightarrow> string" where
  "normalizeOp s = filter (\<lambda>c. \<not> isSpace c \<and> c \<noteq> CHR ''_'') (toLowerCase s)"

text \<open>The class \<open>[a-zA-Z0-9_]\<close> and \<open>reportName.replace(/[^a-zA-Z0-9_]/g, '_')\<close>.\<close>

definition isWordChar :: "char \<Rightarrow> bool" where
  "isWordChar c =
     (c \<in> set ''abcdefghijklmnopqrstuvwxyzABCDEFGHIJKLMNOPQRSTUVWXYZ0123456789_'')"

definition replaceNonWord :: "string \<Rightarrow> string" where
  "replaceNonWord s = map (\<lambda>c. if isWordChar c then c else CHR ''_'') s"

text \<open>\<open>Array.prototype.join\<close> on strings.\<close>

fun join :: "string \<Rightarrow> string list \<Rightarrow> string" where
  "join sep [] = []"
| "join sep [x] = x"
| "join sep (x # y # ys) = x @ sep @ join sep (y # ys)"

text \<open>A template literal prints an absent string as \<open>undefined\<close>, a null one as \<open>null\<close>.\<close>

definition orUndefined :: "string option \<Rightarrow> string" where
  "orUndefined s = (case s of Some t \<Rightarrow> t | None \<Rightarrow> ''undefined'')"

definition orNull :: "string option \<Rightarrow> string" where
  "orNull s = (case s of Some t \<Rightarrow> t | None \<Rightarrow> ''null'')"

subsection \<open>Dictionaries\<close>

type_synonym 'v dict = "(string \<times> 'v) list"

text \<open>\<open>d[k] = v\<close>\<close>

fun assign :: "string \<Rightarrow> 'v \<Rightarrow> 'v dict \<Rightarrow> 'v dict" where
  "assign k v [] = [(k, v)]"
| "assign k v ((k', v') # kvs) =
     (if k' = k then (k, v) # kvs else (k', v') # assign k v kvs)"

text \<open>\<open>d[k]\<close> read as a condition: the key is present and its string is not empty.\<close>

definition truthyAt :: "string dict \<Rightarrow> string \<Rightarrow> bool" where
  "truthyAt d k = (case map_of d k of Some v \<Rightarrow> v \<noteq> [] | None \<Rightarrow> False)"

text \<open>\<open>new Set(xs)\<close> enumerated: the first occurrence of each element, in order.\<close>

definition setOf :: "'a list \<Rightarrow> 'a list" where
  "setOf xs = rev (remdups (rev xs))"

subsection \<open>Exceptions\<close>

datatype exn = Error string | TypeError string

fun message :: "exn \<Rightarrow> string" where
  "message (Error m) = m"
| "message (TypeError m) = m"

subsection \<open>The schema description of a report type\<close>

record columnInfo =
  ci_label :: "string option"
  ci_dataType :: "string option"

record operatorEntry =
  op_name :: string
  op_label :: "string option"

text \<open>A category is its \<open>columns\<close> catalog; \<open>None\<close> when the category is null or has none.\<close>

type_synonym category = "columnInfo dict option"

record schemaDescription =
  detailColumnInfo :: "columnInfo dict option"
  categories :: "category list option"
  dataTypeFilterOperatorMap :: "operatorEntry list dict option"

record fieldMaps =
  fieldMap :: "string dict"
  fieldTypeMap :: "string dict"
  operatorMap :: "operatorEntry list dict"

subsection \<open>Arguments\<close>

text \<open>A value of type \<open>any\<close> that is only tested and copied.\<close>

datatype json = JNull | JBool bool | JNum int | JStr string | JArr "json list"
  | JObj "(string \<times> json) list"

fun truthy :: "json \<Rightarrow> bool" where
  "truthy JNull = False"
| "truthy (JBool b) = b"
| "truthy (JNum n) = (n \<noteq> 0)"
| "truthy (JStr s) = (s \<noteq> [])"
| "truthy (JArr xs) = True"
| "truthy (JObj kvs) = True"

fun typeofObject :: "json \<Rightarrow> bool" where
  "typeofObject JNull = True"
| "typeofObject (JArr xs) = True"
| "typeofObject (JObj kvs) = True"
| "typeofObject v = False"

record simpleFilter =
  sf_field :: string
  sf_operator :: string
  sf_value :: string

record reportFilter =
  rf_column :: string
  rf_operator :: string
  rf_value :: string

text \<open>An entry of a grouping array. \<open>mapToCanonicalReportField\<close> returns a falsy value as it
  is and reads every other one as \<open>String(val)\<close>, so a name is a string, or \<open>None\<close> for a
  name that is absent or falsy and no string.\<close>

record groupingArg =
  g_name :: "string option"
  g_sortOrder :: "string option"
  g_sortAggregate :: "string option"
  g_dateGranularity :: "string option"

record reportTypeObj =
  rt_type :: "string option"
  rt_label :: "string option"

datatype reportTypeArg = RTObject reportTypeObj | RTNull | RTString string

text \<open>The nested \<open>reportMetadata\<close> object, with the properties the handler reads.\<close>

record nestedMetadata =
  md_filters :: "simpleFilter list option"
  md_reportFilters :: "reportFilter list option"
  md_aggregates :: "string list option"
  md_groupingsDown :: "groupingArg option list option"
  md_groupingsAcross :: "groupingArg option list option"

text \<open>\<open>CreateReportArgs\<close>; \<open>currency\<close>, \<open>division\<close> and \<open>userOrHierarchyFilterId\<close> are
  absent (\<open>None\<close>), null (\<open>Some None\<close>) or a string.\<close>

record createReportArgs =
  reportName :: "string option"
  objectName :: "string option"
  columns :: "string list option"
  filters :: "simpleFilter list option"
  reportType :: "reportTypeArg option"
  folderName :: "string option"
  folderId :: "string option"
  reportId :: "string option"
  reportFormat :: "string option"
  reportBooleanFilter :: "string option"
  reportFilters :: "reportFilter list option"
  detailColumns :: "string list option"
  developerName :: "string option"
  currency :: "string option option"
  aggregates :: "string list option"
  groupingsDown :: "groupingArg option list option"
  groupingsAcross :: "groupingArg option list option"
  reportMetadata :: "nestedMetadata option"
  scope :: "string option"
  showGrandTotal :: "bool option"
  showSubtotals :: "bool option"
  hasDetailRows :: "bool option"
  hasRecordCount :: "bool option"
  presentationOptions :: "json option"
  chart :: "json option"
  crossFilters :: "json list option"
  standardDateFilter :: "json option"
  standardFilters :: "json option"
  division :: "string option option"
  dashboardSetting :: "json option"
  userOrHierarchyFilterId :: "string option option"
  supportsRoleHierarchy :: "bool option"
  historicalSnapshotDates :: "string list option"

subsection \<open>The report document\<close>

text \<open>What \<open>mapToCanonicalReportField\<close> returns: a string, or the member of
  \<open>Object.prototype\<close> of that name (a function; for \<open>__proto__\<close> the prototype itself).\<close>

datatype resolved = Canonical string | Inherited string

record filterSpec =
  fs_column :: resolved
  fs_operator :: string
  fs_value :: string

text \<open>An entry of \<open>groupingsDown\<close>: the name is absent when the argument has none, the sort
  aggregate is null (\<open>None\<close>) without one.\<close>

record groupingSpec =
  gs_name :: "resolved option"
  gs_sortOrder :: string
  gs_sortAggregate :: "resolved option"
  gs_dateGranularity :: string

text \<open>\<open>groupingsDown\<close> of the document is built entry by entry, \<open>groupingsAcross\<close> is the
  argument itself.\<close>

record reportDocument =
  doc_name :: "string option"
  doc_folderId :: "string option"
  doc_reportType :: "reportTypeObj option"
  doc_detailColumns :: "resolved list option"
  doc_reportFilters :: "filterSpec list option"
  doc_reportFormat :: "string option"
  doc_id :: "string option"
  doc_reportBooleanFilter :: "string option"
  doc_developerName :: "string option"
  doc_currency :: "string option option"
  doc_aggregates :: "string list option"
  doc_groupingsDown :: "groupingSpec list option"
  doc_groupingsAcross :: "groupingArg option list option"
  doc_scope :: "string option"
  doc_showGrandTotal :: "bool option"
  doc_showSubtotals :: "bool option"
  doc_hasDetailRows :: "bool option"
  doc_hasRecordCount :: "bool option"
  doc_presentationOptions :: "json option"
  doc_chart :: "json option"
  doc_crossFilters :: "json list option"
  doc_standardDateFilter :: "json option"
  doc_standardFilters :: "json option"
  doc_division :: "string option option"
  doc_dashboardSetting :: "json option"
  doc_userOrHierarchyFilterId :: "string option option"
  doc_supportsRoleHierarchy :: "bool option"
  doc_historicalSnapshotDates :: "string list option"

subsection \<open>The connection and the environment\<close>

record folderRecord =
  Id :: string
  Name :: string

text \<open>What a resolved \<open>conn.query\<close> gives: nothing, an object without \<open>records\<close>, or records.\<close>

datatype queryResponse = NoResponse | NoRecords | Records "folderRecord list"

record creationResponse =
  reportExtendedMetadata :: bool
  created_id :: "string option"

text \<open>\<open>conn.request\<close> is split by method: the GET of a report type's description and
  the POST of a document, each at a URL.\<close>

record connection =
  version :: "string option"
  query :: "string \<Rightarrow> exn + queryResponse"
  request_get :: "string \<Rightarrow> exn + schemaDescription option"
  request_post :: "string \<Rightarrow> reportDocument \<Rightarrow> exn + creationResponse option"

record environment =
  SALESFORCE_INSTANCE_URL :: "string option"

record envelope =
  content_text :: string
  isError :: bool

subsection \<open>\<open>buildReportFieldMap\<close>: the field index of a report type\<close>

text \<open>\<open>(info as any)?.dataType || ''\<close>\<close>

definition dataTypeOr :: "columnInfo \<Rightarrow> string" where
  "dataTypeOr info = (case ci_dataType info of Some t \<Rightarrow> t | None \<Rightarrow> [])"

text \<open>The body of the loop over \<open>detailColumnInfo\<close> (lines 309--317), on the pair of
  \<open>fieldMap\<close> and \<open>fieldTypeMap\<close>.\<close>

fun detailStep ::
  "string \<times> columnInfo \<Rightarrow> string dict \<times> string dict \<Rightarrow> string dict \<times> string dict" where
  "detailStep (colKey, info) (fm, ftm) =
     (let fm1 = assign (toUpperCase colKey) colKey fm;
          ftm1 = assign (toUpperCase colKey) (dataTypeOr info) ftm
      in case ci_label info of
           None \<Rightarrow> (fm1, ftm1)
         | Some l \<Rightarrow>
             if l \<noteq> [] then
               (assign (toUpperCase l) colKey fm1, assign (toUpperCase l) (dataTypeOr info) ftm1)
             else (fm1, ftm1))"

text \<open>The body of the loop over one category's \<open>columns\<close> (lines 324--335).\<close>

fun categoryStep ::
  "string \<times> columnInfo \<Rightarrow> string dict \<times> string dict \<Rightarrow> string dict \<times> string dict" where
  "categoryStep (catKey, catInfo) (fm, ftm) =
     (let catKeyUp = toUpperCase catKey in
      if \<not> truthyAt fm catKeyUp then
        (let fm1 = assign catKeyUp catKey fm;
             ftm1 = assign catKeyUp (dataTypeOr catInfo) ftm
         in case ci_label catInfo of
              None \<Rightarrow> (fm1, ftm1)
            | Some l \<Rightarrow>
                if l \<noteq> [] then
                  (assign (toUpperCase l) catKey fm1,
                   assign (toUpperCase l) (dataTypeOr catInfo) ftm1)
                else (fm1, ftm1))
      else (fm, ftm))"

definition categoryColumns ::
  "category \<Rightarrow> string dict \<times> string dict \<Rightarrow> string dict \<times> string dict" where
  "categoryColumns cat m = (case cat of Some cols \<Rightarrow> fold categoryStep cols m | None \<Rightarrow> m)"

text \<open>Lines 304--340: what is built from the fetched description.\<close>

definition detailIndex :: "schemaDescription option \<Rightarrow> string dict \<times> string dict" where
  "detailIndex desc =
     (case desc of
        None \<Rightarrow> ([], [])
      | Some d \<Rightarrow>
          (case detailColumnInfo d of
             None \<Rightarrow> ([], [])
           | Some cols \<Rightarrow> fold detailStep cols ([], [])))"

definition indexSchema :: "schemaDescription option \<Rightarrow> fieldMaps" where
  "indexSchema desc =
     (let opMap = (case desc of
                     None \<Rightarrow> []
                   | Some d \<Rightarrow> (case dataTypeFilterOperatorMap d of None \<Rightarrow> [] | Some om \<Rightarrow> om));
          m1 = detailIndex desc;
          m2 = (case desc of
                  None \<Rightarrow> m1
                | Some d \<Rightarrow>
                    (case categories d of
                       None \<Rightarrow> m1
                     | Some cats \<Rightarrow> fold categoryColumns cats m1))
      in \<lparr>fieldMap = fst m2, fieldTypeMap = snd m2, operatorMap = opMap\<rparr>)"

definition emptyMaps :: fieldMaps where
  "emptyMaps = \<lparr>fieldMap = [], fieldTypeMap = [], operatorMap = []\<rparr>"

definition buildReportFieldMap ::
  "environment \<Rightarrow> connection \<Rightarrow> reportTypeObj \<Rightarrow> exn + fieldMaps" where
  "buildReportFieldMap env conn reportTypeObj =
     (case rt_type reportTypeObj of
        None \<Rightarrow> Inr emptyMaps
      | Some typeName \<Rightarrow>
          if typeName = [] then Inr emptyMaps
          else
            (let url = orUndefined (SALESFORCE_INSTANCE_URL env)
                         @ ''/services/data/v39.0/analytics/report-types/'' @ typeName
             in case request_get conn url of
                  Inl e \<Rightarrow>
                    Inl (Error (''Failed to fetch report type metadata for '' @ [CHR 0x27]
                                @ typeName @ [CHR 0x27] @ '': '' @ message e))
                | Inr desc \<Rightarrow> Inr (indexSchema desc)))"

subsection \<open>Field resolution and validation\<close>

text \<open>The member names of \<open>Object.prototype\<close>, which a plain object answers when it has no
  key of its own of that name.\<close>

definition objectPrototypeNames :: "string list" where
  "objectPrototypeNames =
     [''constructor'', ''__defineGetter__'', ''__defineSetter__'', ''hasOwnProperty'',
      ''__lookupGetter__'', ''__lookupSetter__'', ''isPrototypeOf'', ''propertyIsEnumerable'',
      ''toString'', ''valueOf'', ''__proto__'', ''toLocaleString'']"

text \<open>\<open>reportFieldMap[k]\<close>: the value of the own key, else the inherited member, else
  \<open>undefined\<close>.\<close>

definition propertyOf :: "string dict \<Rightarrow> string \<Rightarrow> resolved option" where
  "propertyOf d k =
     (case map_of d k of
        Some v \<Rightarrow> Some (Canonical v)
      | None \<Rightarrow> if k \<in> set objectPrototypeNames then Some (Inherited k) else None)"

fun truthyResolved :: "resolved \<Rightarrow> bool" where
  "truthyResolved (Canonical v) = (v \<noteq> [])"
| "truthyResolved (Inherited n) = True"

text \<open>\<open>reportFieldMap[k]\<close> when it is truthy.\<close>

definition truthyProperty :: "string dict \<Rightarrow> string \<Rightarrow> resolved option" where
  "truthyProperty d k =
     (case propertyOf d k of
        Some r \<Rightarrow> if truthyResolved r then Some r else None
      | None \<Rightarrow> None)"

text \<open>Lines 456--465.\<close>

definition mapToCanonicalReportField :: "string dict \<Rightarrow> string \<Rightarrow> resolved" where
  "mapToCanonicalReportField reportFieldMap val =
     (if val = [] then Canonical val
      else
        (case truthyProperty reportFieldMap val of
           Some r \<Rightarrow> r
         | None \<Rightarrow>
             (let upper = toUpperCase val in
              case truthyProperty reportFieldMap upper of
                Some r \<Rightarrow> r
              | None \<Rightarrow>
                  (case find (\<lambda>(k, canonical). toUpperCase (trim k) = upper) reportFieldMap of
                     Some (k, canonical) \<Rightarrow> Canonical canonical
                   | None \<Rightarrow> Canonical upper))))"

datatype fieldKind = ColumnKind | FilterKind

fun kindName :: "fieldKind \<Rightarrow> string" where
  "kindName ColumnKind = ''column''"
| "kindName FilterKind = ''filter''"

text \<open>\<open>Array.from(new Set(Object.values(fieldMap)))\<close>\<close>

definition allowedFields :: "string dict \<Rightarrow> string list" where
  "allowedFields fm = setOf (map snd fm)"

text \<open>The message of the error thrown at line 477.\<close>

definition invalidFieldMessage :: "string \<Rightarrow> fieldKind \<Rightarrow> string list \<Rightarrow> string" where
  "invalidFieldMessage requested kind allowed =
     ''Field '' @ [CHR 0x27] @ requested @ [CHR 0x27] @ '' is not a valid '' @ kindName kind
       @ '' for this Salesforce report type. Allowed:'' @ join '', '' allowed @ '']''"

text \<open>Lines 467--480; the index is both the closure's \<open>reportFieldMap\<close> and the argument
  \<open>fieldMap\<close>, as at every call. The set \<open>allowed\<close> holds strings, so it has no inherited
  member.\<close>

fun throwIfInvalidFields :: "string list \<Rightarrow> fieldKind \<Rightarrow> string dict \<Rightarrow> exn + unit" where
  "throwIfInvalidFields [] kind fm = Inr ()"
| "throwIfInvalidFields (requested # rest) kind fm =
     (if requested = [] then throwIfInvalidFields rest kind fm
      else if mapToCanonicalReportField fm requested \<in> Canonical ` set (allowedFields fm)
      then throwIfInvalidFields rest kind fm
      else Inl (Error (invalidFieldMessage requested kind (allowedFields fm))))"

subsection \<open>Operator resolution\<close>

text \<open>Lines 483--492.\<close>

definition getValidOperatorsForField :: "fieldMaps \<Rightarrow> string \<Rightarrow> string list" where
  "getValidOperatorsForField maps column =
     (let key = (if column \<noteq> [] then toUpperCase column else column) in
      if key \<noteq> [] \<and> truthyAt (fieldTypeMap maps) key then
        (case map_of (operatorMap maps) (the (map_of (fieldTypeMap maps) key)) of
           None \<Rightarrow> []
         | Some ops \<Rightarrow> map op_name ops)
      else [])"

text \<open>\<open>operatorMap[reportFieldTypeMap[column.toUpperCase()]] || []\<close>: an absent data type
  is the property name \<open>undefined\<close>.\<close>

definition operatorsOfColumn :: "fieldMaps \<Rightarrow> string \<Rightarrow> operatorEntry list" where
  "operatorsOfColumn maps column =
     (case map_of (operatorMap maps)
             (orUndefined (map_of (fieldTypeMap maps) (toUpperCase column))) of
        None \<Rightarrow> []
      | Some ops \<Rightarrow> ops)"

text \<open>\<open>(o.label || '')\<close>\<close>

definition labelOr :: "operatorEntry \<Rightarrow> string" where
  "labelOr ent = (case op_label ent of Some l \<Rightarrow> l | None \<Rightarrow> [])"

text \<open>Lines 495--514.\<close>

definition normalizeOperatorForField :: "fieldMaps \<Rightarrow> string \<Rightarrow> string \<Rightarrow> string" where
  "normalizeOperatorForField maps op column =
     (if op = [] then []
      else
        (let valids = getValidOperatorsForField maps column in
         if valids = [] then op
         else
           (let input = normalizeOp op in
            case find (\<lambda>v. input = toLowerCase v) valids of
              Some v \<Rightarrow> v
            | None \<Rightarrow>
                (case find (\<lambda>ent. input = normalizeOp (labelOr ent))
                        (operatorsOfColumn maps column) of
                   Some ent \<Rightarrow> op_name ent
                 | None \<Rightarrow>
                     if op \<in> set valids then op
                     else if hd valids \<noteq> [] then hd valids else op))))"

subsection \<open>Folder resolution (lines 383--409)\<close>

text \<open>The texts of the \<open>TypeError\<close>s are those of the engine and stand for themselves.\<close>

definition folderQuery :: "createReportArgs \<Rightarrow> string" where
  "folderQuery args =
     (case folderId args of
        Some f \<Rightarrow>
          if f \<noteq> [] then
            ''SELECT Id, Name FROM Folder WHERE Id = '' @ [CHR 0x27] @ f @ [CHR 0x27]
              @ '' AND Type = 'Report' LIMIT 1''
          else
            ''SELECT Id, Name FROM Folder WHERE Name = '' @ [CHR 0x27]
              @ orUndefined (folderName args) @ [CHR 0x27] @ '' AND Type = 'Report' LIMIT 1''
      | None \<Rightarrow>
          ''SELECT Id, Name FROM Folder WHERE Name = '' @ [CHR 0x27]
            @ orUndefined (folderName args) @ [CHR 0x27] @ '' AND Type = 'Report' LIMIT 1'')"

definition anyFolderQuery :: string where
  "anyFolderQuery = ''SELECT Id, Name FROM Folder WHERE Type = 'Report' LIMIT 1''"

text \<open>\<open>folderRes && folderRes.records && folderRes.records.length > 0\<close>\<close>

fun hasRecords :: "queryResponse \<Rightarrow> bool" where
  "hasRecords (Records (r # rs)) = True"
| "hasRecords other = False"

fun firstId :: "queryResponse \<Rightarrow> string option" where
  "firstId (Records (r # rs)) = Some (Id r)"
| "firstId other = None"

definition resolveFolder :: "connection \<Rightarrow> createReportArgs \<Rightarrow> exn + string option" where
  "resolveFolder conn args =
     (case query conn (folderQuery args) of
        Inl e \<Rightarrow> Inl e
      | Inr folderRes \<Rightarrow>
          if hasRecords folderRes then Inr (firstId folderRes)
          else
            (case query conn anyFolderQuery of
               Inl e \<Rightarrow> Inl e
             | Inr NoResponse \<Rightarrow>
                 Inl (TypeError ''Cannot read properties of undefined (reading 'records')'')
             | Inr NoRecords \<Rightarrow>
                 Inl (TypeError ''Cannot read properties of undefined (reading 'length')'')
             | Inr (Records rs) \<Rightarrow> Inr (firstId (Records rs))))"

subsection \<open>Assembling the document (lines 413--687)\<close>

definition emptyDocument :: reportDocument where
  "emptyDocument =
     \<lparr>doc_name = None, doc_folderId = None, doc_reportType = None, doc_detailColumns = None,
      doc_reportFilters = None, doc_reportFormat = None, doc_id = None,
      doc_reportBooleanFilter = None, doc_developerName = None, doc_currency = None,
      doc_aggregates = None, doc_groupingsDown = None, doc_groupingsAcross = None,
      doc_scope = None, doc_showGrandTotal = None, doc_showSubtotals = None,
      doc_hasDetailRows = None, doc_hasRecordCount = None, doc_presentationOptions = None,
      doc_chart = None, doc_crossFilters = None, doc_standardDateFilter = None,
      doc_standardFilters = None, doc_division = None, doc_dashboardSetting = None,
      doc_userOrHierarchyFilterId = None, doc_supportsRoleHierarchy = None,
      doc_historicalSnapshotDates = None\<rparr>"

text \<open>\<open>Array.isArray(xs) && xs.length > 0\<close>, and the elements of such an array.\<close>

definition nonEmpty :: "'a list option \<Rightarrow> bool" where
  "nonEmpty xs = (case xs of Some ys \<Rightarrow> ys \<noteq> [] | None \<Rightarrow> False)"

definition elems :: "'a list option \<Rightarrow> 'a list" where
  "elems xs = (case xs of Some ys \<Rightarrow> ys | None \<Rightarrow> [])"

text \<open>A string that is present and not empty, as a condition.\<close>

definition truthyStr :: "string option \<Rightarrow> bool" where
  "truthyStr s = (case s of Some t \<Rightarrow> t \<noteq> [] | None \<Rightarrow> False)"

text \<open>\<open>x && typeof x === 'object'\<close>\<close>

definition truthyObject :: "json option \<Rightarrow> bool" where
  "truthyObject x = (case x of Some v \<Rightarrow> truthy v \<and> typeofObject v | None \<Rightarrow> False)"

text \<open>The report type of the document (lines 420--433).\<close>

definition derivedReportType :: "string \<Rightarrow> reportTypeObj" where
  "derivedReportType objName = \<lparr>rt_type = Some (objName @ ''List''), rt_label = Some (objName @ ''s'')\<rparr>"

definition withDefaults :: "createReportArgs \<Rightarrow> reportTypeObj \<Rightarrow> reportTypeObj" where
  "withDefaults args reportTypeObj =
     (let withLabel =
            (if \<not> truthyStr (rt_label reportTypeObj) then
               reportTypeObj\<lparr>rt_label :=
                 Some (case objectName args of Some n \<Rightarrow> n @ ''s'' | None \<Rightarrow> ''Objects'')\<rparr>
             else reportTypeObj)
      in if \<not> truthyStr (rt_type withLabel) then
           withLabel\<lparr>rt_type :=
             Some (case objectName args of Some n \<Rightarrow> n @ ''List'' | None \<Rightarrow> ''ObjectList'')\<rparr>
         else withLabel)"

definition documentReportType :: "createReportArgs \<Rightarrow> reportTypeObj option" where
  "documentReportType args =
     (case reportType args of
        Some (RTObject obj) \<Rightarrow> Some (withDefaults args obj)
      | Some RTNull \<Rightarrow> Some (withDefaults args \<lparr>rt_type = None, rt_label = None\<rparr>)
      | Some (RTString s) \<Rightarrow> map_option derivedReportType (objectName args)
      | None \<Rightarrow> map_option derivedReportType (objectName args))"

text \<open>\<open>reportTypeObjForMapping\<close> (lines 440--443); a null report type is no object to map.\<close>

definition reportTypeObjForMapping :: "createReportArgs \<Rightarrow> reportTypeObj option" where
  "reportTypeObjForMapping args =
     (case reportType args of
        Some (RTObject obj) \<Rightarrow> Some obj
      | Some RTNull \<Rightarrow> None
      | Some (RTString s) \<Rightarrow> map_option derivedReportType (objectName args)
      | None \<Rightarrow> map_option derivedReportType (objectName args))"

text \<open>Lines 445--454.\<close>

definition resolveMaps :: "environment \<Rightarrow> connection \<Rightarrow> createReportArgs \<Rightarrow> exn + fieldMaps" where
  "resolveMaps env conn args =
     (case reportTypeObjForMapping args of
        Some obj \<Rightarrow> buildReportFieldMap env conn obj
      | None \<Rightarrow> Inr emptyMaps)"

text \<open>Lines 516--524.\<close>

definition columnsStep :: "fieldMaps \<Rightarrow> createReportArgs \<Rightarrow> reportDocument \<Rightarrow> exn + reportDocument" where
  "columnsStep maps args body =
     (if nonEmpty (columns args) then
        (case throwIfInvalidFields (elems (columns args)) ColumnKind (fieldMap maps) of
           Inl e \<Rightarrow> Inl e
         | Inr u \<Rightarrow>
             Inr (body\<lparr>doc_detailColumns :=
                    Some (map (mapToCanonicalReportField (fieldMap maps)) (elems (columns args)))\<rparr>))
      else if nonEmpty (detailColumns args) then
        (case throwIfInvalidFields (elems (detailColumns args)) ColumnKind (fieldMap maps) of
           Inl e \<Rightarrow> Inl e
         | Inr u \<Rightarrow>
             Inr (body\<lparr>doc_detailColumns :=
                    Some (map (mapToCanonicalReportField (fieldMap maps))
                            (elems (detailColumns args)))\<rparr>))
      else Inr body)"

text \<open>\<open>xs.map(f)\<close> where \<open>f\<close> may throw: the first entry that throws ends the call.\<close>

fun mapE :: "('a \<Rightarrow> exn + 'b) \<Rightarrow> 'a list \<Rightarrow> exn + 'b list" where
  "mapE f [] = Inr []"
| "mapE f (x # xs) =
     (case f x of
        Inl e \<Rightarrow> Inl e
      | Inr y \<Rightarrow> (case mapE f xs of Inl e \<Rightarrow> Inl e | Inr ys \<Rightarrow> Inr (y # ys)))"

text \<open>\<open>normalizeOperatorForField\<close> called on what \<open>mapToCanonicalReportField\<close> returned. An
  inherited member is no string: an empty operator is answered before the column is
  looked at (line 496), otherwise \<open>column.toUpperCase()\<close> throws (line 484).\<close>

definition normalizeOperatorFor :: "fieldMaps \<Rightarrow> string \<Rightarrow> resolved \<Rightarrow> exn + string" where
  "normalizeOperatorFor maps op column =
     (case column of
        Canonical c \<Rightarrow> Inr (normalizeOperatorForField maps op c)
      | Inherited n \<Rightarrow>
          if op = [] then Inr []
          else Inl (TypeError ''column.toUpperCase is not a function''))"

text \<open>The filter built from a \<open>{field, operator, value}\<close> entry (lines 529--533, 549--553).\<close>

definition fromSimpleFilter :: "fieldMaps \<Rightarrow> simpleFilter \<Rightarrow> exn + filterSpec" where
  "fromSimpleFilter maps f =
     (case normalizeOperatorFor maps (sf_operator f)
             (mapToCanonicalReportField (fieldMap maps) (sf_field f)) of
        Inl e \<Rightarrow> Inl e
      | Inr operator \<Rightarrow>
          Inr \<lparr>fs_column = mapToCanonicalReportField (fieldMap maps) (sf_field f),
               fs_operator = operator,
               fs_value = sf_value f\<rparr>)"

text \<open>The filter built from a \<open>{column, operator, value}\<close> argument entry (lines 537--541): the
  entry itself with its column and operator replaced.\<close>

definition fromReportFilter :: "fieldMaps \<Rightarrow> reportFilter \<Rightarrow> exn + filterSpec" where
  "fromReportFilter maps f =
     (case normalizeOperatorFor maps (rf_operator f)
             (if rf_column f \<noteq> [] then mapToCanonicalReportField (fieldMap maps) (rf_column f)
              else Canonical (rf_column f)) of
        Inl e \<Rightarrow> Inl e
      | Inr operator \<Rightarrow>
          Inr \<lparr>fs_column =
                 (if rf_column f \<noteq> [] then mapToCanonicalReportField (fieldMap maps) (rf_column f)
                  else Canonical (rf_column f)),
               fs_operator = operator,
               fs_value = rf_value f\<rparr>)"

text \<open>The filter built from an entry of the nested \<open>reportFilters\<close> (lines 557--561).\<close>

definition fromNestedReportFilter :: "fieldMaps \<Rightarrow> reportFilter \<Rightarrow> exn + filterSpec" where
  "fromNestedReportFilter maps f =
     (case normalizeOperatorFor maps (rf_operator f)
             (mapToCanonicalReportField (fieldMap maps) (rf_column f)) of
        Inl e \<Rightarrow> Inl e
      | Inr operator \<Rightarrow>
          Inr \<lparr>fs_column = mapToCanonicalReportField (fieldMap maps) (rf_column f),
               fs_operator = operator,
               fs_value = rf_value f\<rparr>)"

text \<open>Lines 526--542.\<close>

definition filtersStep :: "fieldMaps \<Rightarrow> createReportArgs \<Rightarrow> reportDocument \<Rightarrow> exn + reportDocument" where
  "filtersStep maps args body =
     (if nonEmpty (filters args) then
        (case throwIfInvalidFields (map sf_field (elems (filters args))) FilterKind (fieldMap maps) of
           Inl e \<Rightarrow> Inl e
         | Inr u \<Rightarrow>
             (case mapE (fromSimpleFilter maps) (elems (filters args)) of
                Inl e \<Rightarrow> Inl e
              | Inr fs \<Rightarrow> Inr (body\<lparr>doc_reportFilters := Some fs\<rparr>)))
      else if nonEmpty (reportFilters args) then
        (case throwIfInvalidFields (map rf_column (elems (reportFilters args))) FilterKind
                (fieldMap maps) of
           Inl e \<Rightarrow> Inl e
         | Inr u \<Rightarrow>
             (case mapE (fromReportFilter maps) (elems (reportFilters args)) of
                Inl e \<Rightarrow> Inl e
              | Inr fs \<Rightarrow> Inr (body\<lparr>doc_reportFilters := Some fs\<rparr>)))
      else Inr body)"

text \<open>Lines 544--563.\<close>

definition nestedFiltersStep ::
  "fieldMaps \<Rightarrow> createReportArgs \<Rightarrow> reportDocument \<Rightarrow> exn + reportDocument" where
  "nestedFiltersStep maps args body =
     (case reportMetadata args of
        None \<Rightarrow> Inr body
      | Some md \<Rightarrow>
          if nonEmpty (md_filters md) then
            (case throwIfInvalidFields (map sf_field (elems (md_filters md))) FilterKind
                    (fieldMap maps) of
               Inl e \<Rightarrow> Inl e
             | Inr u \<Rightarrow>
                 (case mapE (fromSimpleFilter maps) (elems (md_filters md)) of
                    Inl e \<Rightarrow> Inl e
                  | Inr fs \<Rightarrow> Inr (body\<lparr>doc_reportFilters := Some fs\<rparr>)))
          else if nonEmpty (md_reportFilters md) then
            (case throwIfInvalidFields (map rf_column (elems (md_reportFilters md))) FilterKind
                    (fieldMap maps) of
               Inl e \<Rightarrow> Inl e
             | Inr u \<Rightarrow>
                 (case mapE (fromNestedReportFilter maps) (elems (md_reportFilters md)) of
                    Inl e \<Rightarrow> Inl e
                  | Inr fs \<Rightarrow> Inr (body\<lparr>doc_reportFilters := Some fs\<rparr>)))
          else Inr body)"

text \<open>Lines 565--588. Without a \<open>developerName\<close> string the name is derived from
  \<open>reportName\<close>, and \<open>replace\<close> on an absent \<open>reportName\<close> throws.\<close>

definition optionalFieldsStep :: "createReportArgs \<Rightarrow> reportDocument \<Rightarrow> exn + reportDocument" where
  "optionalFieldsStep args body =
     (let b1 = (case reportFormat args of
                  Some fmt \<Rightarrow> body\<lparr>doc_reportFormat := Some (toUpperCase fmt)\<rparr>
                | None \<Rightarrow> body);
          b2 = (if truthyStr (folderId args) then b1\<lparr>doc_folderId := folderId args\<rparr> else b1);
          b3 = (if truthyStr (reportId args) then b2\<lparr>doc_id := reportId args\<rparr> else b2);
          b4 = (case reportBooleanFilter args of
                  Some bf \<Rightarrow> b3\<lparr>doc_reportBooleanFilter := Some bf\<rparr>
                | None \<Rightarrow> b3)
      in case developerName args of
           Some dn \<Rightarrow> Inr (b4\<lparr>doc_developerName := Some dn\<rparr>)
         | None \<Rightarrow>
             (case reportName args of
                Some rn \<Rightarrow> Inr (b4\<lparr>doc_developerName := Some (replaceNonWord rn)\<rparr>)
              | None \<Rightarrow>
                  Inl (TypeError ''Cannot read properties of undefined (reading 'replace')'')))"

text \<open>An entry of \<open>groupingsDown\<close> built from the argument (lines 599--604) and from the
  nested object (lines 617--622).\<close>

definition sortOrderOr :: "groupingArg \<Rightarrow> string" where
  "sortOrderOr f = (if truthyStr (g_sortOrder f) then orUndefined (g_sortOrder f) else ''Asc'')"

definition dateGranularityOr :: "groupingArg \<Rightarrow> string" where
  "dateGranularityOr f =
     (if truthyStr (g_dateGranularity f) then orUndefined (g_dateGranularity f) else ''None'')"

definition sortAggregateOf :: "fieldMaps \<Rightarrow> groupingArg \<Rightarrow> resolved option" where
  "sortAggregateOf maps f =
     (if truthyStr (g_sortAggregate f)
      then map_option (mapToCanonicalReportField (fieldMap maps)) (g_sortAggregate f)
      else None)"

text \<open>\<open>mapToCanonicalReportField(f.name) || f.name\<close>; the function returns an absent name as
  it is.\<close>

definition groupingName :: "fieldMaps \<Rightarrow> groupingArg \<Rightarrow> resolved option" where
  "groupingName maps f =
     (case g_name f of
        None \<Rightarrow> None
      | Some n \<Rightarrow>
          if truthyResolved (mapToCanonicalReportField (fieldMap maps) n)
          then Some (mapToCanonicalReportField (fieldMap maps) n)
          else Some (Canonical n))"

text \<open>An entry that is null or undefined throws where its name is read.\<close>

definition fromGrouping :: "fieldMaps \<Rightarrow> groupingArg option \<Rightarrow> exn + groupingSpec" where
  "fromGrouping maps entry =
     (case entry of
        None \<Rightarrow> Inl (TypeError ''Cannot read properties of null (reading 'name')'')
      | Some f \<Rightarrow>
          Inr \<lparr>gs_name = groupingName maps f,
               gs_sortOrder = sortOrderOr f,
               gs_sortAggregate = sortAggregateOf maps f,
               gs_dateGranularity = dateGranularityOr f\<rparr>)"

definition fromNestedGrouping :: "fieldMaps \<Rightarrow> groupingArg option \<Rightarrow> exn + groupingSpec" where
  "fromNestedGrouping maps entry =
     (case entry of
        None \<Rightarrow> Inl (TypeError ''Cannot read properties of null (reading 'name')'')
      | Some f \<Rightarrow>
          Inr \<lparr>gs_name = map_option (mapToCanonicalReportField (fieldMap maps)) (g_name f),
               gs_sortOrder = sortOrderOr f,
               gs_sortAggregate = sortAggregateOf maps f,
               gs_dateGranularity = dateGranularityOr f\<rparr>)"

text \<open>Lines 589--609: currency, aggregates and the grouping arguments.\<close>

definition groupingsStep ::
  "fieldMaps \<Rightarrow> createReportArgs \<Rightarrow> reportDocument \<Rightarrow> exn + reportDocument" where
  "groupingsStep maps args body =
     (let b1 = (case currency args of Some c \<Rightarrow> body\<lparr>doc_currency := Some c\<rparr> | None \<Rightarrow> body);
          b2 = (if nonEmpty (aggregates args) then b1\<lparr>doc_aggregates := aggregates args\<rparr> else b1)
      in case (if nonEmpty (groupingsDown args) then
                 (case mapE (fromGrouping maps) (elems (groupingsDown args)) of
                    Inl e \<Rightarrow> Inl e
                  | Inr gs \<Rightarrow> Inr (b2\<lparr>doc_groupingsDown := Some gs\<rparr>))
               else Inr b2) of
           Inl e \<Rightarrow> Inl e
         | Inr b3 \<Rightarrow>
             Inr (if nonEmpty (groupingsAcross args)
                  then b3\<lparr>doc_groupingsAcross := groupingsAcross args\<rparr>
                  else b3))"

text \<open>Lines 610--628: the nested object's aggregates and groupings.\<close>

definition nestedGroupingsStep ::
  "fieldMaps \<Rightarrow> createReportArgs \<Rightarrow> reportDocument \<Rightarrow> exn + reportDocument" where
  "nestedGroupingsStep maps args body =
     (case reportMetadata args of
        None \<Rightarrow> Inr body
      | Some md \<Rightarrow>
          (let b1 = (if nonEmpty (md_aggregates md) then body\<lparr>doc_aggregates := md_aggregates md\<rparr>
                     else body)
           in case (if nonEmpty (md_groupingsDown md) then
                      (case mapE (fromNestedGrouping maps) (elems (md_groupingsDown md)) of
                         Inl e \<Rightarrow> Inl e
                       | Inr gs \<Rightarrow> Inr (b1\<lparr>doc_groupingsDown := Some gs\<rparr>))
                    else Inr b1) of
                Inl e \<Rightarrow> Inl e
              | Inr b2 \<Rightarrow>
                  Inr (if nonEmpty (md_groupingsAcross md)
                       then b2\<lparr>doc_groupingsAcross := md_groupingsAcross md\<rparr>
                       else b2)))"

text \<open>Lines 629--645: the scope and the four flags.\<close>

definition totalsStep :: "createReportArgs \<Rightarrow> reportDocument \<Rightarrow> reportDocument" where
  "totalsStep args body =
     (let b1 = body\<lparr>doc_scope := Some (if truthyStr (scope args) then orUndefined (scope args)
                                        else ''organization'')\<rparr>;
          b2 = (case showGrandTotal args of Some v \<Rightarrow> b1\<lparr>doc_showGrandTotal := Some v\<rparr> | None \<Rightarrow> b1);
          b3 = (case showSubtotals args of Some v \<Rightarrow> b2\<lparr>doc_showSubtotals := Some v\<rparr> | None \<Rightarrow> b2);
          b4 = (case hasDetailRows args of Some v \<Rightarrow> b3\<lparr>doc_hasDetailRows := Some v\<rparr> | None \<Rightarrow> b3)
      in case hasRecordCount args of Some v \<Rightarrow> b4\<lparr>doc_hasRecordCount := Some v\<rparr> | None \<Rightarrow> b4)"

text \<open>Lines 646--665: the objects copied when they are truthy objects, and the cross
  filters.\<close>

definition chartStep :: "createReportArgs \<Rightarrow> reportDocument \<Rightarrow> reportDocument" where
  "chartStep args body =
     (let b1 = (if truthyObject (presentationOptions args)
                then body\<lparr>doc_presentationOptions := presentationOptions args\<rparr> else body);
          b2 = (if truthyObject (chart args) then b1\<lparr>doc_chart := chart args\<rparr> else b1);
          b3 = (if nonEmpty (crossFilters args) then b2\<lparr>doc_crossFilters := crossFilters args\<rparr>
                else b2);
          b4 = (if truthyObject (standardDateFilter args)
                then b3\<lparr>doc_standardDateFilter := standardDateFilter args\<rparr> else b3)
      in if truthyObject (standardFilters args)
         then b4\<lparr>doc_standardFilters := standardFilters args\<rparr> else b4)"

text \<open>Lines 666--685.\<close>

definition hierarchyStep :: "createReportArgs \<Rightarrow> reportDocument \<Rightarrow> reportDocument" where
  "hierarchyStep args body =
     (let b1 = (case division args of Some v \<Rightarrow> body\<lparr>doc_division := Some v\<rparr> | None \<Rightarrow> body);
          b2 = (if truthyObject (dashboardSetting args)
                then b1\<lparr>doc_dashboardSetting := dashboardSetting args\<rparr> else b1);
          b3 = (case userOrHierarchyFilterId args of
                  Some v \<Rightarrow> b2\<lparr>doc_userOrHierarchyFilterId := Some v\<rparr>
                | None \<Rightarrow> b2);
          b4 = (case supportsRoleHierarchy args of
                  Some v \<Rightarrow> b3\<lparr>doc_supportsRoleHierarchy := Some v\<rparr>
                | None \<Rightarrow> b3)
      in if nonEmpty (historicalSnapshotDates args)
         then b4\<lparr>doc_historicalSnapshotDates := historicalSnapshotDates args\<rparr>
         else b4)"

text \<open>Lines 629--685 together.\<close>

definition presentationStep :: "createReportArgs \<Rightarrow> reportDocument \<Rightarrow> reportDocument" where
  "presentationStep args body = hierarchyStep args (chartStep args (totalsStep args body))"

text \<open>Lines 415--433: the document starts with the name, the folder found and the report
  type.\<close>

definition initialBody :: "createReportArgs \<Rightarrow> string option \<Rightarrow> reportDocument" where
  "initialBody args folderLabelForReport =
     emptyDocument\<lparr>doc_name := reportName args,
                   doc_folderId := folderLabelForReport,
                   doc_reportType := documentReportType args\<rparr>"

text \<open>Lines 413--687, given the folder found: the document handed to the creation call.\<close>

definition buildDocument ::
  "environment \<Rightarrow> connection \<Rightarrow> createReportArgs \<Rightarrow> string option \<Rightarrow> exn + reportDocument" where
  "buildDocument env conn args folderLabelForReport =
     (case resolveMaps env conn args of
        Inl e \<Rightarrow> Inl e
      | Inr maps \<Rightarrow>
          (case columnsStep maps args (initialBody args folderLabelForReport) of
             Inl e \<Rightarrow> Inl e
           | Inr body1 \<Rightarrow>
               (case filtersStep maps args body1 of
                  Inl e \<Rightarrow> Inl e
                | Inr body2 \<Rightarrow>
                    (case nestedFiltersStep maps args body2 of
                       Inl e \<Rightarrow> Inl e
                     | Inr body3 \<Rightarrow>
                         (case optionalFieldsStep args body3 of
                            Inl e \<Rightarrow> Inl e
                          | Inr body4 \<Rightarrow>
                              (case groupingsStep maps args body4 of
                                 Inl e \<Rightarrow> Inl e
                               | Inr body5 \<Rightarrow>
                                   (case nestedGroupingsStep maps args body5 of
                                      Inl e \<Rightarrow> Inl e
                                    | Inr body6 \<Rightarrow>
                                        Inr (presentationStep args body6))))))))"

text \<open>The folder lookup followed by the assembly: everything before the creation call.\<close>

definition assembleDocument ::
  "environment \<Rightarrow> connection \<Rightarrow> createReportArgs \<Rightarrow> exn + reportDocument" where
  "assembleDocument env conn args =
     (case resolveFolder conn args of
        Inl e \<Rightarrow> Inl e
      | Inr folderLabelForReport \<Rightarrow> buildDocument env conn args folderLabelForReport)"

subsection \<open>The handler and the dispatcher\<close>

text \<open>\<open>conn.version || '57.0'\<close>\<close>

definition apiVer :: "connection \<Rightarrow> string" where
  "apiVer conn = (if truthyStr (version conn) then orUndefined (version conn) else ''57.0'')"

text \<open>Lines 690--713: the creation call and the two envelopes it leads to.\<close>

definition submitDocument ::
  "environment \<Rightarrow> connection \<Rightarrow> createReportArgs \<Rightarrow> string option \<Rightarrow> reportDocument \<Rightarrow>
     exn + envelope" where
  "submitDocument env conn args folderLabelForReport body =
     (let url = orUndefined (SALESFORCE_INSTANCE_URL env) @ ''/services/data/v'' @ apiVer conn
                  @ ''/analytics/reports''
      in case request_post conn url body of
           Inl e \<Rightarrow> Inl e
         | Inr result \<Rightarrow>
             if (case result of Some r \<Rightarrow> reportExtendedMetadata r | None \<Rightarrow> False) then
               Inr \<lparr>content_text =
                      ''Successfully created report '' @ [CHR 0x27] @ orUndefined (reportName args)
                        @ [CHR 0x27] @ '' in folder '' @ [CHR 0x27] @ orNull folderLabelForReport
                        @ [CHR 0x27] @ '' (Id: ''
                        @ orUndefined (case result of Some r \<Rightarrow> created_id r | None \<Rightarrow> None)
                        @ '')'',
                    isError = False\<rparr>
             else
               Inr \<lparr>content_text =
                      ''Failed to create report '' @ [CHR 0x27] @ orUndefined (reportName args)
                        @ [CHR 0x27],
                    isError = True\<rparr>)"

text \<open>The body of the \<open>try\<close> block (lines 382--713).\<close>

definition createReportBody ::
  "environment \<Rightarrow> connection \<Rightarrow> createReportArgs \<Rightarrow> exn + envelope" where
  "createReportBody env conn args =
     (case resolveFolder conn args of
        Inl e \<Rightarrow> Inl e
      | Inr folderLabelForReport \<Rightarrow>
          (case buildDocument env conn args folderLabelForReport of
             Inl e \<Rightarrow> Inl e
           | Inr body \<Rightarrow> submitDocument env conn args folderLabelForReport body))"

text \<open>The \<open>catch\<close> of lines 714--719.\<close>

definition caughtEnvelope :: "exn \<Rightarrow> envelope" where
  "caughtEnvelope e = \<lparr>content_text = ''Error creating report: '' @ message e, isError = True\<rparr>"

text \<open>\<open>handleCreateReport\<close>: the arguments are destructured (lines 346--380) before the
  \<open>try\<close> block is entered (line 382); \<open>None\<close> is an absent or null argument object.\<close>

definition handleCreateReport ::
  "environment \<Rightarrow> connection \<Rightarrow> createReportArgs option \<Rightarrow> exn + envelope" where
  "handleCreateReport env conn args =
     (case args of
        None \<Rightarrow>
          Inl (TypeError
                 ''Cannot destructure property 'reportName' of 'args' as it is undefined.'')
      | Some a \<Rightarrow>
          (case createReportBody env conn a of
             Inl e \<Rightarrow> Inr (caughtEnvelope e)
           | Inr r \<Rightarrow> Inr r))"

text \<open>The \<open>salesforce_create_report\<close> case of the request handler in \<open>index.ts\<close> (lines
  74--76, 85--165, 465--473): the handler receives the \<open>reportMetadata\<close> property of the
  tool arguments. The first argument is the outcome of \<open>createSalesforceConnection\<close>; the
  tool arguments are absent (\<open>None\<close>) or an object whose \<open>reportMetadata\<close> may be absent.\<close>

definition dispatchedEnvelope :: "exn \<Rightarrow> envelope" where
  "dispatchedEnvelope e = \<lparr>content_text = ''Error: '' @ message e, isError = True\<rparr>"

definition callCreateReport ::
  "environment \<Rightarrow> exn + connection \<Rightarrow> createReportArgs option option \<Rightarrow> envelope" where
  "callCreateReport env connection toolArgs =
     (case connection of
        Inl e \<Rightarrow> dispatchedEnvelope e
      | Inr conn \<Rightarrow>
          (case toolArgs of
             None \<Rightarrow>
               dispatchedEnvelope
                 (TypeError ''Cannot read properties of undefined (reading 'reportName')'')
           | Some reportArgs \<Rightarrow>
               (case handleCreateReport env conn reportArgs of
                  Inl e \<Rightarrow> dispatchedEnvelope e
                | Inr r \<Rightarrow> r)))"

subsection \<open>Notions used in the statements\<close>

text \<open>An identifier has no case-insensitive mapping into an index: no key of the index,
  trimmed or not, equals it when both are upper-cased.\<close>

definition noMapping :: "string dict \<Rightarrow> string \<Rightarrow> bool" where
  "noMapping fm r =
     (\<forall>k \<in> set (map fst fm).
        toUpperCase k \<noteq> toUpperCase r \<and> toUpperCase (trim k) \<noteq> toUpperCase r)"

text \<open>Every canonical name of an index is reachable under its own upper-cased form.\<close>

definition indexInv :: "string dict \<Rightarrow> bool" where
  "indexInv fm = (\<forall>c \<in> snd ` set fm. toUpperCase c \<in> fst ` set fm)"

text \<open>A property of the nested \<open>reportMetadata\<close> object, absent when the object is.\<close>

definition nested :: "(nestedMetadata \<Rightarrow> 'a option) \<Rightarrow> createReportArgs \<Rightarrow> 'a option" where
  "nested sel args = (case reportMetadata args of Some md \<Rightarrow> sel md | None \<Rightarrow> None)"

text \<open>The arguments with every grouping removed, those of the nested object too.\<close>

definition withoutGroupings :: "createReportArgs \<Rightarrow> createReportArgs" where
  "withoutGroupings args =
     args\<lparr>groupingsDown := None, groupingsAcross := None,
          reportMetadata :=
            map_option (\<lambda>md. md\<lparr>md_groupingsDown := None, md_groupingsAcross := None\<rparr>)
              (reportMetadata args)\<rparr>"

subsection \<open>Example data\<close>

definition equalsOp :: operatorEntry where
  "equalsOp = \<lparr>op_name = ''equals'', op_label = Some ''Equals''\<rparr>"

definition notEqualOp :: operatorEntry where
  "notEqualOp = \<lparr>op_name = ''notEqual'', op_label = Some ''Does Not Equal''\<rparr>"

definition accountSchema :: schemaDescription where
  "accountSchema =
     \<lparr>detailColumnInfo = Some
        [(''AccountName'', \<lparr>ci_label = Some ''Account Name'', ci_dataType = Some ''string''\<rparr>),
         (''TYPE'', \<lparr>ci_label = Some ''Type'', ci_dataType = Some ''picklist''\<rparr>)],
      categories = Some
        [Some [(''RATING'', \<lparr>ci_label = Some ''Rating'', ci_dataType = Some ''picklist''\<rparr>)]],
      dataTypeFilterOperatorMap = Some
        [(''string'', [equalsOp, notEqualOp]), (''picklist'', [equalsOp])]\<rparr>"

definition accountMaps :: fieldMaps where
  "accountMaps = indexSchema (Some accountSchema)"

text \<open>A detail column and a category column that carry the same label.\<close>

definition overlapSchema :: schemaDescription where
  "overlapSchema =
     \<lparr>detailColumnInfo = Some
        [(''NAME'', \<lparr>ci_label = Some ''Name'', ci_dataType = Some ''string''\<rparr>)],
      categories = Some
        [Some [(''ACCOUNT.NAME'', \<lparr>ci_label = Some ''Name'', ci_dataType = Some ''picklist''\<rparr>)]],
      dataTypeFilterOperatorMap = None\<rparr>"

text \<open>An operator table whose second name carries an underscore.\<close>

definition underscoreMaps :: fieldMaps where
  "underscoreMaps =
     \<lparr>fieldMap = [(''STAGE'', ''STAGE'')],
      fieldTypeMap = [(''STAGE'', ''picklist'')],
      operatorMap = [(''picklist'', [equalsOp, \<lparr>op_name = ''not_equal'', op_label = None\<rparr>])]\<rparr>"

text \<open>An organization with one report folder, in which no lookup by id or by name finds a
  folder; the account schema is the description of every report type.\<close>

definition exampleEnv :: environment where
  "exampleEnv = \<lparr>SALESFORCE_INSTANCE_URL = Some ''https://example.my.salesforce.com''\<rparr>"

definition publicReports :: folderRecord where
  "publicReports = \<lparr>Id = ''00l000000000001AAA'', Name = ''Public Reports''\<rparr>"

definition exampleConn :: connection where
  "exampleConn =
     \<lparr>version = Some ''57.0'',
      query = (\<lambda>soql. if soql = anyFolderQuery then Inr (Records [publicReports])
                       else Inr (Records [])),
      request_get = (\<lambda>url. Inr (Some accountSchema)),
      request_post = (\<lambda>url body.
        Inr (Some \<lparr>reportExtendedMetadata = True, created_id = Some ''00O000000000001AAA''\<rparr>))\<rparr>"

text \<open>The same organization without any report folder, and one whose description call
  is rejected.\<close>

definition emptyOrgConn :: connection where
  "emptyOrgConn = exampleConn\<lparr>query := (\<lambda>soql. Inr (Records []))\<rparr>"

definition offlineConn :: connection where
  "offlineConn = exampleConn\<lparr>request_get := (\<lambda>url. Inl (Error ''socket hang up''))\<rparr>"

definition baseArgs :: createReportArgs where
  "baseArgs =
     \<lparr>reportName = Some ''My Report!'', objectName = Some ''Account'', columns = None,
      filters = None, reportType = None, folderName = None, folderId = None, reportId = None,
      reportFormat = None, reportBooleanFilter = None, reportFilters = None,
      detailColumns = None, developerName = None, currency = None, aggregates = None,
      groupingsDown = None, groupingsAcross = None, reportMetadata = None, scope = None,
      showGrandTotal = None, showSubtotals = None, hasDetailRows = None,
      hasRecordCount = None, presentationOptions = None, chart = None, crossFilters = None,
      standardDateFilter = None, standardFilters = None, division = None,
      dashboardSetting = None, userOrHierarchyFilterId = None, supportsRoleHierarchy = None,
      historicalSnapshotDates = None\<rparr>"

definition noMetadata :: nestedMetadata where
  "noMetadata =
     \<lparr>md_filters = None, md_reportFilters = None, md_aggregates = None,
      md_groupingsDown = None, md_groupingsAcross = None\<rparr>"

text \<open>Both the \<open>filters\<close> argument and the nested \<open>filters\<close>, on the same field.\<close>

definition precedenceArgs :: createReportArgs where
  "precedenceArgs =
     baseArgs\<lparr>filters :=
                Some [\<lparr>sf_field = ''Account Name'', sf_operator = ''equals'', sf_value = ''Acme''\<rparr>],
              reportMetadata :=
                Some (noMetadata\<lparr>md_filters :=
                  Some [\<lparr>sf_field = ''Account Name'', sf_operator = ''notEqual'',
                         sf_value = ''Other''\<rparr>]\<rparr>)\<rparr>"

text \<open>The \<open>filters\<close> argument alone.\<close>

definition filtersOnlyArgs :: createReportArgs where
  "filtersOnlyArgs =
     baseArgs\<lparr>filters :=
                Some [\<lparr>sf_field = ''account name'', sf_operator = ''Equals'', sf_value = ''Acme''\<rparr>]\<rparr>"

text \<open>A grouping on a field the schema does not have.\<close>

definition bogusGroupingArgs :: createReportArgs where
  "bogusGroupingArgs =
     baseArgs\<lparr>groupingsDown :=
                Some [Some \<lparr>g_name = Some ''Bogus_Field'', g_sortOrder = None,
                             g_sortAggregate = None, g_dateGranularity = None\<rparr>]\<rparr>"

text \<open>A grouping array with a null entry, and a grouping named as a member of
  \<open>Object.prototype\<close>.\<close>

definition nullGroupingArgs :: createReportArgs where
  "nullGroupingArgs = baseArgs\<lparr>groupingsDown := Some [None]\<rparr>"

definition constructorGroupingArgs :: createReportArgs where
  "constructorGroupingArgs =
     baseArgs\<lparr>groupingsDown :=
                Some [Some \<lparr>g_name = Some ''constructor'', g_sortOrder = None,
                             g_sortAggregate = None, g_dateGranularity = None\<rparr>]\<rparr>"

text \<open>The same grouping next to a column the schema does not have.\<close>

definition bogusBothArgs :: createReportArgs where
  "bogusBothArgs = bogusGroupingArgs\<lparr>columns := Some [''BOGUS_FIELD'']\<rparr>"

text \<open>A folder id and a folder name that no folder has; a column the schema does not
  have; a developer name.\<close>

definition strayFolderArgs :: createReportArgs where
  "strayFolderArgs =
     baseArgs\<lparr>folderId := Some ''00l000000000999AAA'', folderName := Some ''Sales''\<rparr>"

definition namedFolderArgs :: createReportArgs where
  "namedFolderArgs = baseArgs\<lparr>folderName := Some ''Sales''\<rparr>"

definition otherFolderArgs :: createReportArgs where
  "otherFolderArgs = baseArgs\<lparr>folderId := Some ''00l000000000777AAA''\<rparr>"

definition bogusColumnArgs :: createReportArgs where
  "bogusColumnArgs = baseArgs\<lparr>columns := Some [''BOGUS_FIELD'']\<rparr>"

definition namedArgs :: createReportArgs where
  "namedArgs = baseArgs\<lparr>developerName := Some ''Quarterly Report''\<rparr>"

section \<open>Properties\<close>

subsection \<open>Strings and dictionaries\<close>

lemma toUpperChar_idem: "toUpperChar (toUpperChar c) = toUpperChar c"
  by (simp add: toUpperChar_def)

lemma toLowerChar_idem: "toLowerChar (toLowerChar c) = toLowerChar c"
  by (simp add: toLowerChar_def)

lemma toUpperCase_idem: "toUpperCase (toUpperCase s) = toUpperCase s"
  by (simp add: toUpperCase_def toUpperChar_idem)

lemma keys_assign_map: "set (map fst (assign k v d)) = insert k (set (map fst d))"
  by (induction k v d rule: assign.induct) auto

lemma keys_assign: "fst ` set (assign k v d) = insert k (fst ` set d)"
  using keys_assign_map[of k v d] by simp

lemma values_assign_map: "set (map snd (assign k v d)) \<subseteq> insert v (set (map snd d))"
  by (induction k v d rule: assign.induct) auto

lemma values_assign: "snd ` set (assign k v d) \<subseteq> insert v (snd ` set d)"
  using values_assign_map[of k v d] by simp

lemma truthyAt_key: "truthyAt d k \<Longrightarrow> k \<in> fst ` set d"
  by (auto simp: truthyAt_def image_iff split: option.splits dest!: map_of_SomeD) force

lemma sublist_join: "x \<in> set xs \<Longrightarrow> sublist x (join sep xs)"
proof (induction sep xs rule: join.induct)
  case (1 sep)
  then show ?case by simp
next
  case (2 sep y)
  then show ?case by simp
next
  case (3 sep y z zs)
  show ?case
  proof (cases "x = y")
    case True
    then show ?thesis by (simp add: sublist_append)
  next
    case False
    with 3 have "sublist x (join sep (z # zs))" by simp
    then show ?thesis by (simp add: sublist_append)
  qed
qed

lemma toLowerChar_keeps_class:
  "(isSpace (toLowerChar c) \<or> toLowerChar c = CHR ''_'') = (isSpace c \<or> c = CHR ''_'')"
  by (simp add: toLowerChar_def isSpace_def)

subsection \<open>The field index\<close>

lemma indexInv_assign:
  assumes "indexInv fm" "toUpperCase c \<in> insert k (fst ` set fm)"
  shows "indexInv (assign k c fm)"
  unfolding indexInv_def
proof
  fix x assume "x \<in> snd ` set (assign k c fm)"
  then have "x = c \<or> x \<in> snd ` set fm" using values_assign[of k c fm] by auto
  then show "toUpperCase x \<in> fst ` set (assign k c fm)"
    using assms by (auto simp: keys_assign indexInv_def)
qed

lemma indexInv_detailStep: "indexInv (fst m) \<Longrightarrow> indexInv (fst (detailStep e m))"
  by (cases e; cases m)
     (auto simp: Let_def keys_assign intro!: indexInv_assign split: option.splits)

lemma indexInv_categoryStep: "indexInv (fst m) \<Longrightarrow> indexInv (fst (categoryStep e m))"
  by (cases e; cases m)
     (auto simp: Let_def keys_assign intro!: indexInv_assign split: option.splits)

lemma indexInv_fold_detail: "indexInv (fst m) \<Longrightarrow> indexInv (fst (fold detailStep cols m))"
  by (induction cols arbitrary: m) (auto simp: indexInv_detailStep)

lemma indexInv_fold_category: "indexInv (fst m) \<Longrightarrow> indexInv (fst (fold categoryStep cols m))"
  by (induction cols arbitrary: m) (auto simp: indexInv_categoryStep)

lemma indexInv_categoryColumns: "indexInv (fst m) \<Longrightarrow> indexInv (fst (categoryColumns cat m))"
  by (auto simp: categoryColumns_def indexInv_fold_category split: option.splits)

lemma indexInv_fold_categories:
  "indexInv (fst m) \<Longrightarrow> indexInv (fst (fold categoryColumns cats m))"
  by (induction cats arbitrary: m) (auto simp: indexInv_categoryColumns)

lemma indexInv_detailIndex: "indexInv (fst (detailIndex desc))"
  by (auto simp: detailIndex_def indexInv_def
      intro!: indexInv_fold_detail[unfolded indexInv_def, rule_format] split: option.splits)

lemma indexInv_indexSchema: "indexInv (fieldMap (indexSchema desc))"
  by (auto simp: indexSchema_def Let_def indexInv_detailIndex indexInv_fold_categories
      split: option.splits)

lemma indexSchema_None: "indexSchema None = emptyMaps"
  by (simp add: indexSchema_def detailIndex_def emptyMaps_def)

text \<open>
  C3. The claim: the index is built from the detail-column catalog first and then from each
  category's catalog, and an entry registered from an earlier source is never overwritten
  by a later one, also for the keys that come from labels. The source guards the
  category column's own key (\<open>if (!fieldMap[catKeyUp])\<close>, under the comment "If not found in
  detailColumnInfo, supplement with any category columns") but assigns the key of its label
  without a guard. For a detail column \<open>NAME\<close> labelled \<open>Name\<close> and a category column
  \<open>ACCOUNT.NAME\<close> with the same label, the detail catalog registers \<open>NAME \<mapsto> NAME\<close> of data
  type \<open>string\<close>, and the finished index maps \<open>NAME\<close> to \<open>ACCOUNT.NAME\<close> of data type
  \<open>picklist\<close>: the category catalog has overwritten the entry of the detail catalog.
\<close>

theorem category_label_overwrites_detail_entry:
  "detailIndex (Some overlapSchema) = ([(''NAME'', ''NAME'')], [(''NAME'', ''string'')])
   \<and> fieldMap (indexSchema (Some overlapSchema)) =
       [(''NAME'', ''ACCOUNT.NAME''), (''ACCOUNT.NAME'', ''ACCOUNT.NAME'')]
   \<and> fieldTypeMap (indexSchema (Some overlapSchema)) =
       [(''NAME'', ''picklist''), (''ACCOUNT.NAME'', ''picklist'')]"
  by code_simp

subsection \<open>Field validation\<close>

lemma upper_not_inherited: "toUpperCase s \<notin> set objectPrototypeNames"
proof
  assume "toUpperCase s \<in> set objectPrototypeNames"
  moreover have "\<forall>n \<in> set objectPrototypeNames. toUpperCase n \<noteq> n" by code_simp
  ultimately have "toUpperCase (toUpperCase s) \<noteq> toUpperCase s" by blast
  then show False by (simp add: toUpperCase_idem)
qed

lemma empty_not_inherited: "[] \<notin> set objectPrototypeNames"
  by (simp add: objectPrototypeNames_def)

lemma mapToCanonical_noMapping:
  assumes "noMapping fm r"
  shows "mapToCanonicalReportField fm r =
           (if r \<in> set objectPrototypeNames then Inherited r else Canonical (toUpperCase r))"
proof (cases "r = []")
  case True
  then show ?thesis
    by (simp add: mapToCanonicalReportField_def toUpperCase_def empty_not_inherited)
next
  case False
  have "r \<notin> fst ` set fm" using assms by (auto simp: noMapping_def)
  then have a: "map_of fm r = None" by (simp add: map_of_eq_None_iff)
  have "toUpperCase r \<notin> fst ` set fm"
  proof
    assume "toUpperCase r \<in> fst ` set fm"
    then have "toUpperCase r \<in> set (map fst fm)" by simp
    with assms have "toUpperCase (toUpperCase r) \<noteq> toUpperCase r"
      unfolding noMapping_def by blast
    then show False by (simp add: toUpperCase_idem)
  qed
  then have b: "map_of fm (toUpperCase r) = None" by (simp add: map_of_eq_None_iff)
  have c: "find (\<lambda>(k, canonical). toUpperCase (trim k) = toUpperCase r) fm = None"
    using assms by (auto simp: find_None_iff noMapping_def)
  show ?thesis
    using False a b c
    by (simp add: mapToCanonicalReportField_def Let_def truthyProperty_def propertyOf_def
        upper_not_inherited)
qed

lemma set_allowedFields: "set (allowedFields fm) = snd ` set fm"
  by (simp add: allowedFields_def setOf_def)

lemma noMapping_not_allowed:
  assumes "indexInv fm" "noMapping fm r"
  shows "mapToCanonicalReportField fm r \<notin> Canonical ` set (allowedFields fm)"
proof
  assume "mapToCanonicalReportField fm r \<in> Canonical ` set (allowedFields fm)"
  then have "toUpperCase r \<in> set (allowedFields fm)"
    using mapToCanonical_noMapping[OF assms(2)] by (auto split: if_splits)
  then have "toUpperCase (toUpperCase r) \<in> fst ` set fm"
    using assms(1) unfolding set_allowedFields indexInv_def by blast
  then have "toUpperCase r \<in> set (map fst fm)" by (simp add: toUpperCase_idem)
  with assms(2) have "toUpperCase (toUpperCase r) \<noteq> toUpperCase r"
    unfolding noMapping_def by blast
  then show False by (simp add: toUpperCase_idem)
qed

lemma message_names_requested:
  "sublist requested (invalidFieldMessage requested kind allowed)"
  unfolding invalidFieldMessage_def sublist_def by (metis append.assoc)

lemma message_lists_allowed:
  assumes "c \<in> set allowed"
  shows "sublist c (invalidFieldMessage requested kind allowed)"
proof -
  from assms have "sublist c (join '', '' allowed)" by (rule sublist_join)
  then obtain ps ss where "join '', '' allowed = ps @ c @ ss" by (auto simp: sublist_def)
  then show ?thesis unfolding invalidFieldMessage_def sublist_def by (metis append.assoc)
qed

lemma throwIfInvalidFields_Inr_iff:
  "throwIfInvalidFields batch kind fm = Inr () \<longleftrightarrow>
     (\<forall>r \<in> set batch.
        r = [] \<or> mapToCanonicalReportField fm r \<in> Canonical ` set (allowedFields fm))"
  by (induction batch) auto

lemma throwIfInvalidFields_first_offender:
  assumes "r \<in> set batch" "r \<noteq> []"
    and "mapToCanonicalReportField fm r \<notin> Canonical ` set (allowedFields fm)"
  shows "\<exists>pre r0 post. batch = pre @ r0 # post
           \<and> (\<forall>x \<in> set pre.
                 x = [] \<or> mapToCanonicalReportField fm x \<in> Canonical ` set (allowedFields fm))
           \<and> r0 \<noteq> []
           \<and> mapToCanonicalReportField fm r0 \<notin> Canonical ` set (allowedFields fm)
           \<and> throwIfInvalidFields batch kind fm =
               Inl (Error (invalidFieldMessage r0 kind (allowedFields fm)))"
  using assms
proof (induction batch)
  case Nil
  then show ?case by simp
next
  case (Cons x xs)
  show ?case
  proof (cases "x = [] \<or> mapToCanonicalReportField fm x \<in> Canonical ` set (allowedFields fm)")
    case True
    with Cons.prems have "r \<in> set xs" by auto
    from Cons.IH[OF this Cons.prems(2,3)] obtain pre r0 post where
      p: "xs = pre @ r0 # post"
        "\<forall>x \<in> set pre.
           x = [] \<or> mapToCanonicalReportField fm x \<in> Canonical ` set (allowedFields fm)"
        "r0 \<noteq> []"
        "mapToCanonicalReportField fm r0 \<notin> Canonical ` set (allowedFields fm)"
        "throwIfInvalidFields xs kind fm =
           Inl (Error (invalidFieldMessage r0 kind (allowedFields fm)))"
      by blast
    have "x # xs = (x # pre) @ r0 # post" using p(1) by simp
    moreover have "\<forall>y \<in> set (x # pre).
        y = [] \<or> mapToCanonicalReportField fm y \<in> Canonical ` set (allowedFields fm)"
      using True p(2) by auto
    moreover have "throwIfInvalidFields (x # xs) kind fm =
        Inl (Error (invalidFieldMessage r0 kind (allowedFields fm)))"
      using True p(5) by auto
    ultimately show ?thesis using p(3,4) by blast
  next
    case False
    then have "throwIfInvalidFields (x # xs) kind fm =
        Inl (Error (invalidFieldMessage x kind (allowedFields fm)))"
      by auto
    moreover have "x # xs = [] @ x # xs" by simp
    ultimately show ?thesis using False by (metis empty_iff list.set(1))
  qed
qed

lemma accountMaps_fieldMap:
  "fieldMap accountMaps =
     [(''ACCOUNTNAME'', ''AccountName''), (''ACCOUNT NAME'', ''AccountName''),
      (''TYPE'', ''TYPE''), (''RATING'', ''RATING'')]"
  by code_simp

text \<open>
  C7, as the source has it. Validation skips an empty identifier (\<open>if (!requested)
  continue\<close>), so the claim holds for the identifiers that are not empty: for an index
  built by \<open>buildReportFieldMap\<close>, if some non-empty identifier of a batch has no
  case-insensitive mapping into the index, the whole batch fails with an error whose
  message is that of the first rejected identifier of the batch (every identifier before
  it is empty or resolves to an allowed name) and contains that identifier and every
  canonical name of the index. (An index built from no description is \<open>indexSchema None\<close>,
  the empty index.)
\<close>

theorem unknown_field_fails_the_batch:
  assumes "fm = fieldMap (indexSchema desc)"
    and "r \<in> set batch" and "r \<noteq> []" and "noMapping fm r"
  shows "\<exists>r0 msg. throwIfInvalidFields batch kind fm = Inl (Error msg)
           \<and> r0 \<in> set batch \<and> r0 \<noteq> []
           \<and> mapToCanonicalReportField fm r0 \<notin> Canonical ` set (allowedFields fm)
           \<and> msg = invalidFieldMessage r0 kind (allowedFields fm)
           \<and> sublist r0 msg
           \<and> (\<forall>c \<in> snd ` set fm. sublist c msg)
           \<and> (\<exists>pre post. batch = pre @ r0 # post
                \<and> (\<forall>x \<in> set pre.
                      x = [] \<or>
                      mapToCanonicalReportField fm x \<in> Canonical ` set (allowedFields fm)))"
proof -
  have inv: "indexInv fm" using assms(1) by (simp add: indexInv_indexSchema)
  have "mapToCanonicalReportField fm r \<notin> Canonical ` set (allowedFields fm)"
    using noMapping_not_allowed[OF inv assms(4)] .
  from throwIfInvalidFields_first_offender[OF assms(2,3) this, of kind]
  obtain pre r0 post where r0: "batch = pre @ r0 # post"
      "\<forall>x \<in> set pre.
         x = [] \<or> mapToCanonicalReportField fm x \<in> Canonical ` set (allowedFields fm)"
      "r0 \<noteq> []"
      "mapToCanonicalReportField fm r0 \<notin> Canonical ` set (allowedFields fm)"
      "throwIfInvalidFields batch kind fm =
         Inl (Error (invalidFieldMessage r0 kind (allowedFields fm)))"
    by blast
  from r0(1) have m: "r0 \<in> set batch" by simp
  have "\<forall>c \<in> snd ` set fm. sublist c (invalidFieldMessage r0 kind (allowedFields fm))"
    using message_lists_allowed[of _ "allowedFields fm" r0 kind] by (simp add: set_allowedFields)
  with r0 m message_names_requested[of r0 kind "allowedFields fm"] show ?thesis by blast
qed

text \<open>The witness: column \<open>BOGUS_FIELD\<close> against the account schema.\<close>

theorem unknown_field_fails_the_batch_witness:
  "noMapping (fieldMap accountMaps) ''BOGUS_FIELD''
   \<and> throwIfInvalidFields [''BOGUS_FIELD''] ColumnKind (fieldMap accountMaps) =
       Inl (Error (invalidFieldMessage ''BOGUS_FIELD'' ColumnKind [''AccountName'', ''TYPE'', ''RATING'']))
   \<and> sublist ''BOGUS_FIELD'' (invalidFieldMessage ''BOGUS_FIELD'' ColumnKind [''AccountName'', ''TYPE'', ''RATING''])
   \<and> sublist ''AccountName'' (invalidFieldMessage ''BOGUS_FIELD'' ColumnKind [''AccountName'', ''TYPE'', ''RATING''])
   \<and> sublist ''TYPE'' (invalidFieldMessage ''BOGUS_FIELD'' ColumnKind [''AccountName'', ''TYPE'', ''RATING''])
   \<and> sublist ''RATING'' (invalidFieldMessage ''BOGUS_FIELD'' ColumnKind [''AccountName'', ''TYPE'', ''RATING''])"
proof -
  have h: "noMapping (fieldMap accountMaps) ''BOGUS_FIELD''" by code_simp
  have al: "allowedFields (fieldMap accountMaps) = [''AccountName'', ''TYPE'', ''RATING'']"
    by code_simp
  have sn: "snd ` set (fieldMap accountMaps) = {''AccountName'', ''TYPE'', ''RATING''}"
    by (simp add: accountMaps_fieldMap)
  from unknown_field_fails_the_batch[of "fieldMap accountMaps" "Some accountSchema"
      "''BOGUS_FIELD''" "[''BOGUS_FIELD'']" ColumnKind] h
  show ?thesis by (auto simp: accountMaps_def[symmetric] al sn)
qed

text \<open>C7 as stated fails on an empty identifier: it has no mapping into the index, and the
  batch that holds it passes.\<close>

theorem empty_identifier_is_skipped:
  "noMapping (fieldMap accountMaps) '''' \<and> '''' \<in> set ['''', ''TYPE'']
   \<and> throwIfInvalidFields ['''', ''TYPE''] ColumnKind (fieldMap accountMaps) = Inr ()"
  by code_simp

subsection \<open>Operator resolution\<close>

lemma operators_of_valids:
  assumes "getValidOperatorsForField maps column \<noteq> []"
  shows "map op_name (operatorsOfColumn maps column) = getValidOperatorsForField maps column"
  using assms
  by (auto simp: getValidOperatorsForField_def operatorsOfColumn_def Let_def truthyAt_def
      orUndefined_def split: option.splits if_splits)

text \<open>
  C4, as the source has it. An empty operator is answered first (\<open>if (!op) return op ||
  ''\<close>) and is never replaced by an operator of the list. For a non-empty operator that
  equals no valid name lower-cased and no valid label normalized, on a field whose
  operator list is not empty: the operator itself when it is one of the valid names,
  otherwise the first name of the list (\<open>valids[0] || op\<close>: the operator itself should that
  first name be empty). When the list is empty or the data type unknown, the operator is
  returned unchanged. The resolver is a total function to strings: no path of it throws.
\<close>

theorem unmatched_operator_is_coerced:
  "(getValidOperatorsForField maps column = [] \<longrightarrow>
      normalizeOperatorForField maps op column = op)
   \<and> (op = [] \<longrightarrow> normalizeOperatorForField maps op column = [])
   \<and> (op \<noteq> [] \<and> getValidOperatorsForField maps column \<noteq> []
        \<and> (\<forall>v \<in> set (getValidOperatorsForField maps column). normalizeOp op \<noteq> toLowerCase v)
        \<and> (\<forall>e \<in> set (operatorsOfColumn maps column). normalizeOp op \<noteq> normalizeOp (labelOr e))
      \<longrightarrow> normalizeOperatorForField maps op column =
            (if op \<in> set (getValidOperatorsForField maps column) then op
             else if hd (getValidOperatorsForField maps column) \<noteq> []
             then hd (getValidOperatorsForField maps column) else op))"
proof (intro conjI impI)
  assume "getValidOperatorsForField maps column = []"
  then show "normalizeOperatorForField maps op column = op"
    by (simp add: normalizeOperatorForField_def)
next
  assume "op = []"
  then show "normalizeOperatorForField maps op column = []"
    by (simp add: normalizeOperatorForField_def)
next
  assume a: "op \<noteq> [] \<and> getValidOperatorsForField maps column \<noteq> []
        \<and> (\<forall>v \<in> set (getValidOperatorsForField maps column). normalizeOp op \<noteq> toLowerCase v)
        \<and> (\<forall>e \<in> set (operatorsOfColumn maps column). normalizeOp op \<noteq> normalizeOp (labelOr e))"
  have n: "find (\<lambda>v. normalizeOp op = toLowerCase v) (getValidOperatorsForField maps column) = None"
    using a by (auto simp: find_None_iff)
  have l: "find (\<lambda>ent. normalizeOp op = normalizeOp (labelOr ent)) (operatorsOfColumn maps column) = None"
    using a by (auto simp: find_None_iff)
  show "normalizeOperatorForField maps op column =
            (if op \<in> set (getValidOperatorsForField maps column) then op
             else if hd (getValidOperatorsForField maps column) \<noteq> []
             then hd (getValidOperatorsForField maps column) else op)"
    using a n l by (simp add: normalizeOperatorForField_def Let_def)
qed

text \<open>The witness: an unknown column, an unmatched operator on a string field, and an
  operator that is a valid name with an underscore (which the comparison of names, made
  without stripping the name, does not find).\<close>

theorem unmatched_operator_is_coerced_witness:
  "getValidOperatorsForField accountMaps ''UNKNOWN'' = []
   \<and> normalizeOperatorForField accountMaps ''contains'' ''UNKNOWN'' = ''contains''
   \<and> getValidOperatorsForField accountMaps ''AccountName'' = [''equals'', ''notEqual'']
   \<and> normalizeOperatorForField accountMaps ''contains'' ''AccountName'' = ''equals''
   \<and> getValidOperatorsForField underscoreMaps ''STAGE'' = [''equals'', ''not_equal'']
   \<and> normalizeOperatorForField underscoreMaps ''not_equal'' ''STAGE'' = ''not_equal''"
proof -
  have u: "getValidOperatorsForField accountMaps ''UNKNOWN'' = []" by code_simp
  have v: "getValidOperatorsForField accountMaps ''AccountName'' = [''equals'', ''notEqual'']"
    by code_simp
  have w: "getValidOperatorsForField underscoreMaps ''STAGE'' = [''equals'', ''not_equal'']"
    by code_simp
  have h1: "''contains'' \<noteq> [] \<and> getValidOperatorsForField accountMaps ''AccountName'' \<noteq> []
        \<and> (\<forall>v \<in> set (getValidOperatorsForField accountMaps ''AccountName'').
              normalizeOp ''contains'' \<noteq> toLowerCase v)
        \<and> (\<forall>e \<in> set (operatorsOfColumn accountMaps ''AccountName'').
              normalizeOp ''contains'' \<noteq> normalizeOp (labelOr e))"
    by code_simp
  have h2: "''not_equal'' \<noteq> [] \<and> getValidOperatorsForField underscoreMaps ''STAGE'' \<noteq> []
        \<and> (\<forall>v \<in> set (getValidOperatorsForField underscoreMaps ''STAGE'').
              normalizeOp ''not_equal'' \<noteq> toLowerCase v)
        \<and> (\<forall>e \<in> set (operatorsOfColumn underscoreMaps ''STAGE'').
              normalizeOp ''not_equal'' \<noteq> normalizeOp (labelOr e))"
    by code_simp
  show ?thesis
    using unmatched_operator_is_coerced[of accountMaps "''UNKNOWN''" "''contains''"]
      unmatched_operator_is_coerced[of accountMaps "''AccountName''" "''contains''"]
      unmatched_operator_is_coerced[of underscoreMaps "''STAGE''" "''not_equal''"]
      u h1 h2
    by (simp add: v w)
qed

text \<open>C4 as stated fails on the empty operator: it matches no name and no label of the
  string operators, and the resolver returns it empty instead of \<open>equals\<close>, the first
  operator of the list.\<close>

theorem empty_operator_is_not_coerced:
  "getValidOperatorsForField accountMaps ''AccountName'' = [''equals'', ''notEqual'']
   \<and> normalizeOp '''' \<noteq> toLowerCase ''equals'' \<and> normalizeOp '''' \<noteq> toLowerCase ''notEqual''
   \<and> normalizeOp '''' \<noteq> normalizeOp ''Equals'' \<and> normalizeOp '''' \<noteq> normalizeOp ''Does Not Equal''
   \<and> normalizeOperatorForField accountMaps '''' ''AccountName'' = ''''
   \<and> normalizeOperatorForField accountMaps '''' ''AccountName'' \<noteq> ''equals''"
  by code_simp

text \<open>
  C8. For a field whose data type maps to the operator list \<open>equals\<close> (label \<open>Equals\<close>),
  \<open>notEqual\<close> (label \<open>Does Not Equal\<close>), the operators \<open>does not equal\<close>, \<open>DOES_NOT_EQUAL\<close>
  and \<open>notequal\<close> all resolve to \<open>notEqual\<close>, and they do so by the mechanism the claim
  describes. The input is normalized: every whitespace character and underscore is
  removed and every capital letter replaced by its small letter (the three inputs become
  \<open>doesnotequal\<close>, \<open>doesnotequal\<close>, \<open>notequal\<close>). Every non-empty input is then compared with
  the names \<open>equals\<close> and \<open>notEqual\<close>, next with the labels \<open>Equals\<close> and \<open>Does Not Equal\<close>,
  and the name of the first operator that matches is returned; an input that matches
  nothing resolves to \<open>equals\<close>, the first operator. The source lower-cases a name without
  stripping it; for these two names that is their normalization.
\<close>

theorem notEqual_spellings:
  assumes "column \<noteq> []"
    and "map_of (fieldTypeMap maps) (toUpperCase column) = Some ty" and "ty \<noteq> []"
    and "map_of (operatorMap maps) ty =
           Some [\<lparr>op_name = ''equals'', op_label = Some ''Equals''\<rparr>,
                 \<lparr>op_name = ''notEqual'', op_label = Some ''Does Not Equal''\<rparr>]"
  shows "normalizeOperatorForField maps ''does not equal'' column = ''notEqual''
       \<and> normalizeOperatorForField maps ''DOES_NOT_EQUAL'' column = ''notEqual''
       \<and> normalizeOperatorForField maps ''notequal'' column = ''notEqual''
       \<and> normalizeOp ''does not equal'' = ''doesnotequal''
       \<and> normalizeOp ''DOES_NOT_EQUAL'' = ''doesnotequal''
       \<and> normalizeOp ''notequal'' = ''notequal''
       \<and> normalizeOp ''equals'' = ''equals'' \<and> toLowerCase ''equals'' = ''equals''
       \<and> normalizeOp ''notEqual'' = ''notequal'' \<and> toLowerCase ''notEqual'' = ''notequal''
       \<and> normalizeOp ''Equals'' = ''equals''
       \<and> normalizeOp ''Does Not Equal'' = ''doesnotequal''
       \<and> (\<forall>op. op \<noteq> [] \<longrightarrow>
             normalizeOperatorForField maps op column =
               (if normalizeOp op = normalizeOp ''equals'' then ''equals''
                else if normalizeOp op = normalizeOp ''notEqual'' then ''notEqual''
                else if normalizeOp op = normalizeOp ''Equals'' then ''equals''
                else if normalizeOp op = normalizeOp ''Does Not Equal'' then ''notEqual''
                else ''equals''))
       \<and> (\<forall>s. normalizeOp s =
                 map (\<lambda>c. case map_of (zip ''ABCDEFGHIJKLMNOPQRSTUVWXYZ''
                                            ''abcdefghijklmnopqrstuvwxyz'') c of
                             Some l \<Rightarrow> l | None \<Rightarrow> c)
                   (filter (\<lambda>c. c \<notin> {CHR 0x09, CHR 0x0A, CHR 0x0B, CHR 0x0C, CHR 0x0D,
                                         CHR 0x20, CHR ''_''}) s))"
proof -
  have u: "toUpperCase column \<noteq> []" using assms(1) by (simp add: toUpperCase_def)
  have v: "getValidOperatorsForField maps column = [''equals'', ''notEqual'']"
    using assms u by (simp add: getValidOperatorsForField_def truthyAt_def)
  have ops: "operatorsOfColumn maps column =
           [\<lparr>op_name = ''equals'', op_label = Some ''Equals''\<rparr>,
            \<lparr>op_name = ''notEqual'', op_label = Some ''Does Not Equal''\<rparr>]"
    using assms by (simp add: operatorsOfColumn_def orUndefined_def)
  have n1: "normalizeOp ''does not equal'' = ''doesnotequal''"
    and n2: "normalizeOp ''DOES_NOT_EQUAL'' = ''doesnotequal''"
    and n3: "normalizeOp ''notequal'' = ''notequal''"
    and n4: "normalizeOp ''Does Not Equal'' = ''doesnotequal''"
    and n5: "normalizeOp ''Equals'' = ''equals''"
    and n6: "normalizeOp ''equals'' = ''equals''"
    and n7: "normalizeOp ''notEqual'' = ''notequal''"
    and l1: "toLowerCase ''equals'' = ''equals''"
    and l2: "toLowerCase ''notEqual'' = ''notequal''"
    by (simp_all add: normalizeOp_def toLowerCase_def toLowerChar_def isSpace_def)
  have g: "normalizeOperatorForField maps op column =
               (if normalizeOp op = ''equals'' then ''equals''
                else if normalizeOp op = ''notequal'' then ''notEqual''
                else if normalizeOp op = ''doesnotequal'' then ''notEqual''
                else ''equals'')" if "op \<noteq> []" for op
  proof -
    have ne: "normalizeOp op \<noteq> ''equals'' \<Longrightarrow> op \<noteq> ''equals''" using n6 by auto
    have nn: "normalizeOp op \<noteq> ''notequal'' \<Longrightarrow> op \<noteq> ''notEqual''" using n7 by auto
    show ?thesis
      using that ne nn
      by (auto simp: normalizeOperatorForField_def Let_def v ops n4 n5 l1 l2 labelOr_def)
  qed
  have k: "(\<lambda>c. \<not> isSpace c \<and> c \<noteq> CHR ''_'') =
           (\<lambda>c. c \<notin> {CHR 0x09, CHR 0x0A, CHR 0x0B, CHR 0x0C, CHR 0x0D, CHR 0x20, CHR ''_''})"
    by (auto simp: isSpace_def)
  have c: "normalizeOp s =
             map (\<lambda>c. case map_of (zip ''ABCDEFGHIJKLMNOPQRSTUVWXYZ''
                                        ''abcdefghijklmnopqrstuvwxyz'') c of
                         Some l \<Rightarrow> l | None \<Rightarrow> c)
               (filter (\<lambda>c. c \<notin> {CHR 0x09, CHR 0x0A, CHR 0x0B, CHR 0x0C, CHR 0x0D,
                                    CHR 0x20, CHR ''_''}) s)" for s
  proof -
    have "normalizeOp s = map toLowerChar (filter (\<lambda>c. \<not> isSpace c \<and> c \<noteq> CHR ''_'') s)"
      using toLowerChar_keeps_class
      by (induction s) (auto simp: normalizeOp_def toLowerCase_def)
    also have "toLowerChar = (\<lambda>c. case map_of (zip ''ABCDEFGHIJKLMNOPQRSTUVWXYZ''
                                        ''abcdefghijklmnopqrstuvwxyz'') c of
                         Some l \<Rightarrow> l | None \<Rightarrow> c)"
      by (rule ext) (simp only: toLowerChar_def)
    finally show ?thesis by (simp only: k)
  qed
  from g have g': "\<forall>op. op \<noteq> [] \<longrightarrow>
             normalizeOperatorForField maps op column =
               (if normalizeOp op = normalizeOp ''equals'' then ''equals''
                else if normalizeOp op = normalizeOp ''notEqual'' then ''notEqual''
                else if normalizeOp op = normalizeOp ''Equals'' then ''equals''
                else if normalizeOp op = normalizeOp ''Does Not Equal'' then ''notEqual''
                else ''equals'')"
    by (simp add: n4 n5 n6 n7)
  have r1: "normalizeOperatorForField maps ''does not equal'' column = ''notEqual''"
    and r2: "normalizeOperatorForField maps ''DOES_NOT_EQUAL'' column = ''notEqual''"
    and r3: "normalizeOperatorForField maps ''notequal'' column = ''notEqual''"
    by (simp_all add: g n1 n2 n3)
  from c have c': "\<forall>s. normalizeOp s =
                 map (\<lambda>c. case map_of (zip ''ABCDEFGHIJKLMNOPQRSTUVWXYZ''
                                            ''abcdefghijklmnopqrstuvwxyz'') c of
                             Some l \<Rightarrow> l | None \<Rightarrow> c)
                   (filter (\<lambda>c. c \<notin> {CHR 0x09, CHR 0x0A, CHR 0x0B, CHR 0x0C, CHR 0x0D,
                                         CHR 0x20, CHR ''_''}) s)"
    by blast
  from r1 r2 r3 n1 n2 n3 n6 l1 n7 l2 n5 n4 g' c' show ?thesis by blast
qed

text \<open>The witness: the string field \<open>AccountName\<close> of the account schema.\<close>

theorem notEqual_spellings_witness:
  "map_of (fieldTypeMap accountMaps) (toUpperCase ''AccountName'') = Some ''string''
   \<and> map_of (operatorMap accountMaps) ''string'' = Some [equalsOp, notEqualOp]
   \<and> normalizeOperatorForField accountMaps ''does not equal'' ''AccountName'' = ''notEqual''
   \<and> normalizeOperatorForField accountMaps ''DOES_NOT_EQUAL'' ''AccountName'' = ''notEqual''
   \<and> normalizeOperatorForField accountMaps ''notequal'' ''AccountName'' = ''notEqual''"
proof -
  have a: "map_of (fieldTypeMap accountMaps) (toUpperCase ''AccountName'') = Some ''string''"
    by code_simp
  have b: "map_of (operatorMap accountMaps) ''string'' = Some [equalsOp, notEqualOp]"
    by code_simp
  have c: "map_of (operatorMap accountMaps) ''string'' =
           Some [\<lparr>op_name = ''equals'', op_label = Some ''Equals''\<rparr>,
                 \<lparr>op_name = ''notEqual'', op_label = Some ''Does Not Equal''\<rparr>]"
    using b by (simp add: equalsOp_def notEqualOp_def)
  have n: "''AccountName'' \<noteq> []" and t: "''string'' \<noteq> []" by simp_all
  from notEqual_spellings[OF n a t c] a b show ?thesis by blast
qed

subsection \<open>The document, step by step\<close>

text \<open>What each step of the assembly does to the folder reference, the developer name,
  the filters and the groupings.\<close>

lemma columnsStep_frame:
  assumes "columnsStep maps args b = Inr b'"
  shows "doc_folderId b' = doc_folderId b \<and> doc_developerName b' = doc_developerName b
       \<and> doc_reportFilters b' = doc_reportFilters b \<and> doc_groupingsDown b' = doc_groupingsDown b
       \<and> doc_groupingsAcross b' = doc_groupingsAcross b"
  using assms by (auto simp: columnsStep_def split: if_splits sum.splits)

lemma filtersStep_frame:
  assumes "filtersStep maps args b = Inr b'"
  shows "doc_folderId b' = doc_folderId b \<and> doc_developerName b' = doc_developerName b
       \<and> doc_groupingsDown b' = doc_groupingsDown b
       \<and> doc_groupingsAcross b' = doc_groupingsAcross b
       \<and> Inr (doc_reportFilters b') =
           (if nonEmpty (filters args)
            then map_sum id Some (mapE (fromSimpleFilter maps) (elems (filters args)))
            else if nonEmpty (reportFilters args)
            then map_sum id Some (mapE (fromReportFilter maps) (elems (reportFilters args)))
            else Inr (doc_reportFilters b))"
  using assms by (auto simp: filtersStep_def split: if_splits sum.splits)

lemma nestedFiltersStep_frame:
  assumes "nestedFiltersStep maps args b = Inr b'"
  shows "doc_folderId b' = doc_folderId b \<and> doc_developerName b' = doc_developerName b
       \<and> doc_groupingsDown b' = doc_groupingsDown b
       \<and> doc_groupingsAcross b' = doc_groupingsAcross b
       \<and> Inr (doc_reportFilters b') =
           (if nonEmpty (nested md_filters args)
            then map_sum id Some (mapE (fromSimpleFilter maps) (elems (nested md_filters args)))
            else if nonEmpty (nested md_reportFilters args)
            then map_sum id Some
                   (mapE (fromNestedReportFilter maps) (elems (nested md_reportFilters args)))
            else Inr (doc_reportFilters b))"
  using assms
  by (auto simp: nestedFiltersStep_def nested_def nonEmpty_def split: if_splits sum.splits option.splits)

lemma optionalFieldsStep_frame:
  assumes "optionalFieldsStep args b = Inr b'"
  shows "doc_folderId b' = (if truthyStr (folderId args) then folderId args else doc_folderId b)
       \<and> doc_developerName b' =
           (case developerName args of Some dn \<Rightarrow> Some dn
            | None \<Rightarrow> map_option replaceNonWord (reportName args))
       \<and> doc_developerName b' \<noteq> None
       \<and> doc_reportFilters b' = doc_reportFilters b \<and> doc_groupingsDown b' = doc_groupingsDown b
       \<and> doc_groupingsAcross b' = doc_groupingsAcross b"
  using assms by (auto simp: optionalFieldsStep_def Let_def split: if_splits option.splits)

lemma groupingsStep_frame:
  assumes "groupingsStep maps args b = Inr b'"
  shows "doc_folderId b' = doc_folderId b \<and> doc_developerName b' = doc_developerName b
       \<and> doc_reportFilters b' = doc_reportFilters b
       \<and> Inr (doc_groupingsDown b') =
           (if nonEmpty (groupingsDown args)
            then map_sum id Some (mapE (fromGrouping maps) (elems (groupingsDown args)))
            else Inr (doc_groupingsDown b))
       \<and> doc_groupingsAcross b' =
           (if nonEmpty (groupingsAcross args) then groupingsAcross args
            else doc_groupingsAcross b)"
  using assms
  by (auto simp: groupingsStep_def Let_def split: option.splits sum.splits if_splits)

lemma nestedGroupingsStep_frame:
  assumes "nestedGroupingsStep maps args b = Inr b'"
  shows "doc_folderId b' = doc_folderId b \<and> doc_developerName b' = doc_developerName b
       \<and> doc_reportFilters b' = doc_reportFilters b
       \<and> Inr (doc_groupingsDown b') =
           (if nonEmpty (nested md_groupingsDown args)
            then map_sum id Some
                   (mapE (fromNestedGrouping maps) (elems (nested md_groupingsDown args)))
            else Inr (doc_groupingsDown b))
       \<and> doc_groupingsAcross b' =
           (if nonEmpty (nested md_groupingsAcross args) then nested md_groupingsAcross args
            else doc_groupingsAcross b)"
proof (cases "reportMetadata args")
  case None
  then show ?thesis using assms
    by (simp add: nestedGroupingsStep_def nested_def nonEmpty_def)
next
  case (Some md)
  then show ?thesis using assms
    by (auto simp: nestedGroupingsStep_def nested_def Let_def split: sum.splits if_splits)
qed
lemma totalsStep_frame:
  "doc_folderId (totalsStep args b) = doc_folderId b
   \<and> doc_developerName (totalsStep args b) = doc_developerName b
   \<and> doc_reportFilters (totalsStep args b) = doc_reportFilters b
   \<and> doc_groupingsDown (totalsStep args b) = doc_groupingsDown b
   \<and> doc_groupingsAcross (totalsStep args b) = doc_groupingsAcross b"
  by (simp add: totalsStep_def Let_def split: option.splits)

lemma chartStep_frame:
  "doc_folderId (chartStep args b) = doc_folderId b
   \<and> doc_developerName (chartStep args b) = doc_developerName b
   \<and> doc_reportFilters (chartStep args b) = doc_reportFilters b
   \<and> doc_groupingsDown (chartStep args b) = doc_groupingsDown b
   \<and> doc_groupingsAcross (chartStep args b) = doc_groupingsAcross b"
  by (simp add: chartStep_def Let_def)

lemma hierarchyStep_frame:
  "doc_folderId (hierarchyStep args b) = doc_folderId b
   \<and> doc_developerName (hierarchyStep args b) = doc_developerName b
   \<and> doc_reportFilters (hierarchyStep args b) = doc_reportFilters b
   \<and> doc_groupingsDown (hierarchyStep args b) = doc_groupingsDown b
   \<and> doc_groupingsAcross (hierarchyStep args b) = doc_groupingsAcross b"
  by (simp add: hierarchyStep_def Let_def split: option.splits)

lemma presentationStep_frame:
  "doc_folderId (presentationStep args b) = doc_folderId b
   \<and> doc_developerName (presentationStep args b) = doc_developerName b
   \<and> doc_reportFilters (presentationStep args b) = doc_reportFilters b
   \<and> doc_groupingsDown (presentationStep args b) = doc_groupingsDown b
   \<and> doc_groupingsAcross (presentationStep args b) = doc_groupingsAcross b"
  by (simp add: presentationStep_def totalsStep_frame chartStep_frame hierarchyStep_frame)

lemma initialBody_fields:
  "doc_folderId (initialBody args folder) = folder
   \<and> doc_reportFilters (initialBody args folder) = None
   \<and> doc_groupingsDown (initialBody args folder) = None
   \<and> doc_groupingsAcross (initialBody args folder) = None"
  by (simp add: initialBody_def emptyDocument_def)

lemma buildDocument_fields:
  assumes "buildDocument env conn args folder = Inr doc"
    and "resolveMaps env conn args = Inr maps"
  shows "doc_folderId doc = (if truthyStr (folderId args) then folderId args else folder)"
    and "doc_developerName doc =
           (case developerName args of Some dn \<Rightarrow> Some dn
            | None \<Rightarrow> map_option replaceNonWord (reportName args))"
    and "doc_developerName doc \<noteq> None"
    and "Inr (doc_reportFilters doc) =
           (if nonEmpty (nested md_filters args)
            then map_sum id Some (mapE (fromSimpleFilter maps) (elems (nested md_filters args)))
            else if nonEmpty (nested md_reportFilters args)
            then map_sum id Some
                   (mapE (fromNestedReportFilter maps) (elems (nested md_reportFilters args)))
            else if nonEmpty (filters args)
            then map_sum id Some (mapE (fromSimpleFilter maps) (elems (filters args)))
            else if nonEmpty (reportFilters args)
            then map_sum id Some (mapE (fromReportFilter maps) (elems (reportFilters args)))
            else Inr None)"
    and "Inr (doc_groupingsDown doc) =
           (if nonEmpty (nested md_groupingsDown args)
            then map_sum id Some
                   (mapE (fromNestedGrouping maps) (elems (nested md_groupingsDown args)))
            else if nonEmpty (groupingsDown args)
            then map_sum id Some (mapE (fromGrouping maps) (elems (groupingsDown args)))
            else Inr None)"
    and "doc_groupingsAcross doc =
           (if nonEmpty (nested md_groupingsAcross args) then nested md_groupingsAcross args
            else if nonEmpty (groupingsAcross args) then groupingsAcross args
            else None)"
proof -
  from assms obtain b1 b2 b3 b4 b5 b6 where
    s1: "columnsStep maps args (initialBody args folder) = Inr b1" and
    s2: "filtersStep maps args b1 = Inr b2" and
    s3: "nestedFiltersStep maps args b2 = Inr b3" and
    s4: "optionalFieldsStep args b3 = Inr b4" and
    s5: "groupingsStep maps args b4 = Inr b5" and
    s6: "nestedGroupingsStep maps args b5 = Inr b6" and
    d: "doc = presentationStep args b6"
    by (auto simp: buildDocument_def split: sum.splits)
  note f1 = columnsStep_frame[OF s1] and f2 = filtersStep_frame[OF s2]
    and f3 = nestedFiltersStep_frame[OF s3] and f4 = optionalFieldsStep_frame[OF s4]
    and f5 = groupingsStep_frame[OF s5] and f6 = nestedGroupingsStep_frame[OF s6]
  show "doc_folderId doc = (if truthyStr (folderId args) then folderId args else folder)"
    using f1 f2 f3 f4 f5 f6
    by (simp add: d presentationStep_frame initialBody_fields)
  show "doc_developerName doc =
           (case developerName args of Some dn \<Rightarrow> Some dn
            | None \<Rightarrow> map_option replaceNonWord (reportName args))"
    using f4 f5 f6 by (simp add: d presentationStep_frame)
  from f4 have "doc_developerName b4 \<noteq> None" by blast
  then show "doc_developerName doc \<noteq> None"
    using f5 f6 by (simp add: d presentationStep_frame)
  have r1: "doc_reportFilters b1 = None" using f1 by (simp add: initialBody_fields)
  from f2 r1 have r2: "Inr (doc_reportFilters b2) =
           (if nonEmpty (filters args)
            then map_sum id Some (mapE (fromSimpleFilter maps) (elems (filters args)))
            else if nonEmpty (reportFilters args)
            then map_sum id Some (mapE (fromReportFilter maps) (elems (reportFilters args)))
            else Inr None)"
    by simp
  from f3 have "Inr (doc_reportFilters b3) =
           (if nonEmpty (nested md_filters args)
            then map_sum id Some (mapE (fromSimpleFilter maps) (elems (nested md_filters args)))
            else if nonEmpty (nested md_reportFilters args)
            then map_sum id Some
                   (mapE (fromNestedReportFilter maps) (elems (nested md_reportFilters args)))
            else Inr (doc_reportFilters b2))"
    by blast
  moreover have "doc_reportFilters doc = doc_reportFilters b3"
    using f4 f5 f6 by (simp add: d presentationStep_frame)
  ultimately show "Inr (doc_reportFilters doc) =
           (if nonEmpty (nested md_filters args)
            then map_sum id Some (mapE (fromSimpleFilter maps) (elems (nested md_filters args)))
            else if nonEmpty (nested md_reportFilters args)
            then map_sum id Some
                   (mapE (fromNestedReportFilter maps) (elems (nested md_reportFilters args)))
            else if nonEmpty (filters args)
            then map_sum id Some (mapE (fromSimpleFilter maps) (elems (filters args)))
            else if nonEmpty (reportFilters args)
            then map_sum id Some (mapE (fromReportFilter maps) (elems (reportFilters args)))
            else Inr None)"
    using r2 by (simp only:)
  have g4: "doc_groupingsDown b4 = None"
    using f1 f2 f3 f4 by (simp add: initialBody_fields)
  from f5 g4 have g5: "Inr (doc_groupingsDown b5) =
           (if nonEmpty (groupingsDown args)
            then map_sum id Some (mapE (fromGrouping maps) (elems (groupingsDown args)))
            else Inr None)"
    by simp
  from f6 have "Inr (doc_groupingsDown b6) =
           (if nonEmpty (nested md_groupingsDown args)
            then map_sum id Some
                   (mapE (fromNestedGrouping maps) (elems (nested md_groupingsDown args)))
            else Inr (doc_groupingsDown b5))"
    by blast
  moreover have "doc_groupingsDown doc = doc_groupingsDown b6"
    by (simp add: d presentationStep_frame)
  ultimately show "Inr (doc_groupingsDown doc) =
           (if nonEmpty (nested md_groupingsDown args)
            then map_sum id Some
                   (mapE (fromNestedGrouping maps) (elems (nested md_groupingsDown args)))
            else if nonEmpty (groupingsDown args)
            then map_sum id Some (mapE (fromGrouping maps) (elems (groupingsDown args)))
            else Inr None)"
    using g5 by (simp only:)
  show "doc_groupingsAcross doc =
           (if nonEmpty (nested md_groupingsAcross args) then nested md_groupingsAcross args
            else if nonEmpty (groupingsAcross args) then groupingsAcross args
            else None)"
    using f1 f2 f3 f4 f5 f6
    by (simp add: d presentationStep_frame initialBody_fields)
qed

lemma assembleDocument_InrD:
  assumes "assembleDocument env conn args = Inr doc"
  shows "\<exists>folder maps. resolveFolder conn args = Inr folder
           \<and> buildDocument env conn args folder = Inr doc
           \<and> resolveMaps env conn args = Inr maps"
proof -
  from assms obtain folder where f: "resolveFolder conn args = Inr folder"
    and b: "buildDocument env conn args folder = Inr doc"
    by (auto simp: assembleDocument_def split: sum.splits)
  from b obtain maps where "resolveMaps env conn args = Inr maps"
    by (cases "resolveMaps env conn args") (auto simp: buildDocument_def)
  with f b show ?thesis by blast
qed

lemma assembled_projr: "\<not> isl x \<Longrightarrow> x = Inr (projr x)"
  by (cases x) auto

text \<open>A filter field that passed validation resolves to a string, so building the
  filters of a validated batch never throws.\<close>

lemma mapE_Inr:
  assumes "\<forall>x \<in> set xs. \<exists>y. f x = Inr y"
  shows "\<exists>ys. mapE f xs = Inr ys"
  using assms
proof (induction xs)
  case Nil
  then show ?case by simp
next
  case (Cons x xs)
  then obtain y ys where "f x = Inr y" "mapE f xs = Inr ys" by auto
  then show ?case by simp
qed

lemma validated_is_canonical:
  assumes "throwIfInvalidFields batch kind fm = Inr ()" and "r \<in> set batch"
  shows "\<exists>c. mapToCanonicalReportField fm r = Canonical c"
proof (cases "r = []")
  case True
  then show ?thesis by (simp add: mapToCanonicalReportField_def)
next
  case False
  with assms show ?thesis by (auto simp: throwIfInvalidFields_Inr_iff)
qed

lemma validated_filters_are_built:
  assumes "throwIfInvalidFields (map sf_field fs) kind (fieldMap maps) = Inr ()"
  shows "\<exists>built. mapE (fromSimpleFilter maps) fs = Inr built"
proof (rule mapE_Inr, rule ballI)
  fix f assume "f \<in> set fs"
  then have "sf_field f \<in> set (map sf_field fs)" by simp
  from validated_is_canonical[OF assms this] obtain c where
    "mapToCanonicalReportField (fieldMap maps) (sf_field f) = Canonical c" by blast
  then show "\<exists>y. fromSimpleFilter maps f = Inr y"
    by (simp add: fromSimpleFilter_def normalizeOperatorFor_def)
qed

subsection \<open>Precedence of the filter sources\<close>

text \<open>
  C1, as the source has it. The block that reads the nested \<open>reportMetadata\<close> object (lines
  544--563) runs after the one that reads the arguments and assigns \<open>reportFilters\<close> without
  looking at what is there, as the blocks for the nested aggregates and groupings do. So
  for every invocation that assembles a document: its \<open>reportFilters\<close> is the list derived
  from the nested \<open>filters\<close> when that is non-empty, else the one derived from the nested
  \<open>reportFilters\<close> when that is non-empty; the \<open>filters\<close> argument, and after it the
  \<open>reportFilters\<close> argument, is used only if the nested object populated nothing.
\<close>

theorem nested_filters_take_precedence:
  assumes "assembleDocument env conn args = Inr doc"
    and "resolveMaps env conn args = Inr maps"
  shows "Inr (doc_reportFilters doc) =
           (if nonEmpty (nested md_filters args)
            then map_sum id Some (mapE (fromSimpleFilter maps) (elems (nested md_filters args)))
            else if nonEmpty (nested md_reportFilters args)
            then map_sum id Some
                   (mapE (fromNestedReportFilter maps) (elems (nested md_reportFilters args)))
            else if nonEmpty (filters args)
            then map_sum id Some (mapE (fromSimpleFilter maps) (elems (filters args)))
            else if nonEmpty (reportFilters args)
            then map_sum id Some (mapE (fromReportFilter maps) (elems (reportFilters args)))
            else Inr None)"
proof -
  from assembleDocument_InrD[OF assms(1)] obtain folder where
    "buildDocument env conn args folder = Inr doc" by blast
  from buildDocument_fields(4)[OF this assms(2)] show ?thesis .
qed

text \<open>The witness: the \<open>filters\<close> argument alone, and next to nested \<open>filters\<close>.\<close>

theorem nested_filters_take_precedence_witness:
  "resolveMaps exampleEnv exampleConn filtersOnlyArgs = Inr accountMaps
   \<and> doc_reportFilters (projr (assembleDocument exampleEnv exampleConn filtersOnlyArgs)) =
       Some [\<lparr>fs_column = Canonical ''AccountName'', fs_operator = ''equals'',
              fs_value = ''Acme''\<rparr>]
   \<and> resolveMaps exampleEnv exampleConn precedenceArgs = Inr accountMaps
   \<and> doc_reportFilters (projr (assembleDocument exampleEnv exampleConn precedenceArgs)) =
       Some [\<lparr>fs_column = Canonical ''AccountName'', fs_operator = ''notEqual'',
              fs_value = ''Other''\<rparr>]"
proof -
  have a1: "assembleDocument exampleEnv exampleConn filtersOnlyArgs =
              Inr (projr (assembleDocument exampleEnv exampleConn filtersOnlyArgs))"
    by (rule assembled_projr) code_simp
  have m1: "resolveMaps exampleEnv exampleConn filtersOnlyArgs = Inr accountMaps" by code_simp
  have a2: "assembleDocument exampleEnv exampleConn precedenceArgs =
              Inr (projr (assembleDocument exampleEnv exampleConn precedenceArgs))"
    by (rule assembled_projr) code_simp
  have m2: "resolveMaps exampleEnv exampleConn precedenceArgs = Inr accountMaps" by code_simp
  have e1: "(if nonEmpty (nested md_filters filtersOnlyArgs)
            then map_sum id Some
                   (mapE (fromSimpleFilter accountMaps) (elems (nested md_filters filtersOnlyArgs)))
            else if nonEmpty (nested md_reportFilters filtersOnlyArgs)
            then map_sum id Some
                   (mapE (fromNestedReportFilter accountMaps)
                      (elems (nested md_reportFilters filtersOnlyArgs)))
            else if nonEmpty (filters filtersOnlyArgs)
            then map_sum id Some
                   (mapE (fromSimpleFilter accountMaps) (elems (filters filtersOnlyArgs)))
            else if nonEmpty (reportFilters filtersOnlyArgs)
            then map_sum id Some
                   (mapE (fromReportFilter accountMaps) (elems (reportFilters filtersOnlyArgs)))
            else Inr None) =
       Inr (Some [\<lparr>fs_column = Canonical ''AccountName'', fs_operator = ''equals'',
                   fs_value = ''Acme''\<rparr>])"
    by code_simp
  have e2: "(if nonEmpty (nested md_filters precedenceArgs)
            then map_sum id Some
                   (mapE (fromSimpleFilter accountMaps) (elems (nested md_filters precedenceArgs)))
            else if nonEmpty (nested md_reportFilters precedenceArgs)
            then map_sum id Some
                   (mapE (fromNestedReportFilter accountMaps)
                      (elems (nested md_reportFilters precedenceArgs)))
            else if nonEmpty (filters precedenceArgs)
            then map_sum id Some
                   (mapE (fromSimpleFilter accountMaps) (elems (filters precedenceArgs)))
            else if nonEmpty (reportFilters precedenceArgs)
            then map_sum id Some
                   (mapE (fromReportFilter accountMaps) (elems (reportFilters precedenceArgs)))
            else Inr None) =
       Inr (Some [\<lparr>fs_column = Canonical ''AccountName'', fs_operator = ''notEqual'',
                   fs_value = ''Other''\<rparr>])"
    by code_simp
  from nested_filters_take_precedence[OF a1 m1] e1
  have d1: "doc_reportFilters (projr (assembleDocument exampleEnv exampleConn filtersOnlyArgs)) =
       Some [\<lparr>fs_column = Canonical ''AccountName'', fs_operator = ''equals'',
              fs_value = ''Acme''\<rparr>]"
    by (simp only: sum.inject)
  from nested_filters_take_precedence[OF a2 m2] e2
  have d2: "doc_reportFilters (projr (assembleDocument exampleEnv exampleConn precedenceArgs)) =
       Some [\<lparr>fs_column = Canonical ''AccountName'', fs_operator = ''notEqual'',
              fs_value = ''Other''\<rparr>]"
    by (simp only: sum.inject)
  from m1 d1 m2 d2 show ?thesis by blast
qed

text \<open>C1 as stated fails on its own example: with \<open>filters\<close> (\<open>equals Acme\<close>) and nested
  \<open>filters\<close> (\<open>notEqual Other\<close>) both supplied, the document carries the nested one.\<close>

theorem filters_argument_is_overridden:
  "nonEmpty (filters precedenceArgs) \<and> nonEmpty (nested md_filters precedenceArgs)
   \<and> mapE (fromSimpleFilter accountMaps) (elems (filters precedenceArgs)) =
       Inr [\<lparr>fs_column = Canonical ''AccountName'', fs_operator = ''equals'',
             fs_value = ''Acme''\<rparr>]
   \<and> map_sum id doc_reportFilters (assembleDocument exampleEnv exampleConn precedenceArgs) =
       Inr (Some [\<lparr>fs_column = Canonical ''AccountName'', fs_operator = ''notEqual'',
                   fs_value = ''Other''\<rparr>])
   \<and> map_sum id doc_reportFilters (assembleDocument exampleEnv exampleConn precedenceArgs) \<noteq>
       map_sum id Some (mapE (fromSimpleFilter accountMaps) (elems (filters precedenceArgs)))"
  by code_simp

subsection \<open>Groupings\<close>

text \<open>No step before the groupings reads a grouping.\<close>

lemma withoutGroupings_sel:
  "folderId (withoutGroupings args) = folderId args"
  "folderName (withoutGroupings args) = folderName args"
  "reportType (withoutGroupings args) = reportType args"
  "objectName (withoutGroupings args) = objectName args"
  "reportName (withoutGroupings args) = reportName args"
  "columns (withoutGroupings args) = columns args"
  "detailColumns (withoutGroupings args) = detailColumns args"
  "filters (withoutGroupings args) = filters args"
  "reportFilters (withoutGroupings args) = reportFilters args"
  "reportFormat (withoutGroupings args) = reportFormat args"
  "reportId (withoutGroupings args) = reportId args"
  "reportBooleanFilter (withoutGroupings args) = reportBooleanFilter args"
  "developerName (withoutGroupings args) = developerName args"
  by (simp_all add: withoutGroupings_def)

lemma withoutGroupings_resolveFolder:
  "resolveFolder conn (withoutGroupings args) = resolveFolder conn args"
  by (simp add: resolveFolder_def folderQuery_def withoutGroupings_sel
      cong: option.case_cong reportTypeArg.case_cong sum.case_cong if_cong)

lemma withoutGroupings_resolveMaps:
  "resolveMaps env conn (withoutGroupings args) = resolveMaps env conn args"
  by (simp add: resolveMaps_def reportTypeObjForMapping_def withoutGroupings_sel
      cong: option.case_cong reportTypeArg.case_cong sum.case_cong if_cong)

lemma withoutGroupings_initialBody:
  "initialBody (withoutGroupings args) folder = initialBody args folder"
  by (simp add: initialBody_def documentReportType_def withDefaults_def withoutGroupings_sel
      cong: option.case_cong reportTypeArg.case_cong sum.case_cong if_cong)

lemma withoutGroupings_columnsStep:
  "columnsStep maps (withoutGroupings args) b = columnsStep maps args b"
  by (simp add: columnsStep_def withoutGroupings_sel
      cong: option.case_cong reportTypeArg.case_cong sum.case_cong if_cong)

lemma withoutGroupings_filtersStep:
  "filtersStep maps (withoutGroupings args) b = filtersStep maps args b"
  by (simp add: filtersStep_def withoutGroupings_sel
      cong: option.case_cong reportTypeArg.case_cong sum.case_cong if_cong)

lemma withoutGroupings_nestedFiltersStep:
  "nestedFiltersStep maps (withoutGroupings args) b = nestedFiltersStep maps args b"
  by (cases "reportMetadata args")
     (simp_all add: nestedFiltersStep_def withoutGroupings_def cong: sum.case_cong if_cong)

lemma withoutGroupings_optionalFieldsStep:
  "optionalFieldsStep (withoutGroupings args) b = optionalFieldsStep args b"
  by (simp add: optionalFieldsStep_def withoutGroupings_sel
      cong: option.case_cong sum.case_cong if_cong)

lemmas withoutGroupings_steps =
  withoutGroupings_resolveFolder withoutGroupings_resolveMaps withoutGroupings_initialBody
  withoutGroupings_columnsStep withoutGroupings_filtersStep withoutGroupings_nestedFiltersStep
  withoutGroupings_optionalFieldsStep


text \<open>What a grouping can do to the assembly: nothing, unless an entry is null.\<close>

lemma mapE_Inl: "mapE f xs = Inl e \<Longrightarrow> \<exists>x \<in> set xs. f x = Inl e"
  by (induction xs) (auto split: sum.splits)

lemma mapE_fails: "x \<in> set xs \<Longrightarrow> isl (f x) \<Longrightarrow> isl (mapE f xs)"
  by (induction xs) (auto split: sum.splits)

lemma fromGrouping_Inl:
  "fromGrouping maps entry = Inl e \<Longrightarrow>
     entry = None \<and> e = TypeError ''Cannot read properties of null (reading 'name')''"
  by (auto simp: fromGrouping_def split: option.splits)

lemma fromNestedGrouping_Inl:
  "fromNestedGrouping maps entry = Inl e \<Longrightarrow>
     entry = None \<and> e = TypeError ''Cannot read properties of null (reading 'name')''"
  by (auto simp: fromNestedGrouping_def split: option.splits)

lemma groupingsStep_Inl:
  assumes "groupingsStep maps args b = Inl e"
  shows "e = TypeError ''Cannot read properties of null (reading 'name')''
       \<and> None \<in> set (elems (groupingsDown args))"
proof -
  from assms have "mapE (fromGrouping maps) (elems (groupingsDown args)) = Inl e"
    by (auto simp: groupingsStep_def Let_def split: if_splits sum.splits)
  from mapE_Inl[OF this] obtain x where
    "x \<in> set (elems (groupingsDown args))" "fromGrouping maps x = Inl e" by blast
  with fromGrouping_Inl show ?thesis by blast
qed

lemma nestedGroupingsStep_Inl:
  assumes "nestedGroupingsStep maps args b = Inl e"
  shows "e = TypeError ''Cannot read properties of null (reading 'name')''
       \<and> None \<in> set (elems (nested md_groupingsDown args))"
proof (cases "reportMetadata args")
  case None
  with assms show ?thesis by (simp add: nestedGroupingsStep_def)
next
  case (Some md)
  with assms have "mapE (fromNestedGrouping maps) (elems (md_groupingsDown md)) = Inl e"
    by (auto simp: nestedGroupingsStep_def Let_def split: if_splits sum.splits)
  from mapE_Inl[OF this] obtain x where
    "x \<in> set (elems (md_groupingsDown md))" "fromNestedGrouping maps x = Inl e" by blast
  with fromNestedGrouping_Inl Some show ?thesis by (auto simp: nested_def)
qed

lemma groupingsStep_null:
  assumes "None \<in> set (elems (groupingsDown args))"
  shows "isl (groupingsStep maps args b)"
proof -
  from assms have n: "nonEmpty (groupingsDown args)"
    by (cases "groupingsDown args") (auto simp: nonEmpty_def elems_def)
  have "isl (fromGrouping maps None)" by (simp add: fromGrouping_def)
  from mapE_fails[of None _ "fromGrouping maps", OF assms this] obtain e where
    "mapE (fromGrouping maps) (elems (groupingsDown args)) = Inl e"
    by (cases "mapE (fromGrouping maps) (elems (groupingsDown args))") auto
  with n show ?thesis by (simp add: groupingsStep_def Let_def)
qed

lemma nestedGroupingsStep_null:
  assumes "None \<in> set (elems (nested md_groupingsDown args))"
  shows "isl (nestedGroupingsStep maps args b)"
proof -
  from assms obtain md where md: "reportMetadata args = Some md"
    and m: "None \<in> set (elems (md_groupingsDown md))"
    by (cases "reportMetadata args") (auto simp: nested_def elems_def)
  from m have n: "nonEmpty (md_groupingsDown md)"
    by (cases "md_groupingsDown md") (auto simp: nonEmpty_def elems_def)
  have "isl (fromNestedGrouping maps None)" by (simp add: fromNestedGrouping_def)
  from mapE_fails[of None _ "fromNestedGrouping maps", OF m this] obtain e where
    "mapE (fromNestedGrouping maps) (elems (md_groupingsDown md)) = Inl e"
    by (cases "mapE (fromNestedGrouping maps) (elems (md_groupingsDown md))") auto
  with n md show ?thesis by (simp add: nestedGroupingsStep_def Let_def)
qed

lemma withoutGroupings_groupingsStep:
  "\<exists>b'. groupingsStep maps (withoutGroupings args) b = Inr b'"
  by (simp add: groupingsStep_def withoutGroupings_def nonEmpty_def Let_def)

lemma withoutGroupings_nestedGroupingsStep:
  "\<exists>b'. nestedGroupingsStep maps (withoutGroupings args) b = Inr b'"
  by (cases "reportMetadata args")
     (simp_all add: nestedGroupingsStep_def withoutGroupings_def nonEmpty_def Let_def)

text \<open>The assembly up to the groupings, which the two invocations share.\<close>

lemma buildDocument_Inl_cases:
  assumes "buildDocument env conn args folder = Inl e"
  obtains "resolveMaps env conn args = Inl e"
  | maps where "resolveMaps env conn args = Inr maps"
      "columnsStep maps args (initialBody args folder) = Inl e"
  | maps b1 where "resolveMaps env conn args = Inr maps"
      "columnsStep maps args (initialBody args folder) = Inr b1"
      "filtersStep maps args b1 = Inl e"
  | maps b1 b2 where "resolveMaps env conn args = Inr maps"
      "columnsStep maps args (initialBody args folder) = Inr b1"
      "filtersStep maps args b1 = Inr b2" "nestedFiltersStep maps args b2 = Inl e"
  | maps b1 b2 b3 where "resolveMaps env conn args = Inr maps"
      "columnsStep maps args (initialBody args folder) = Inr b1"
      "filtersStep maps args b1 = Inr b2" "nestedFiltersStep maps args b2 = Inr b3"
      "optionalFieldsStep args b3 = Inl e"
  | maps b1 b2 b3 b4 where "resolveMaps env conn args = Inr maps"
      "columnsStep maps args (initialBody args folder) = Inr b1"
      "filtersStep maps args b1 = Inr b2" "nestedFiltersStep maps args b2 = Inr b3"
      "optionalFieldsStep args b3 = Inr b4" "groupingsStep maps args b4 = Inl e"
  | maps b1 b2 b3 b4 b5 where "resolveMaps env conn args = Inr maps"
      "columnsStep maps args (initialBody args folder) = Inr b1"
      "filtersStep maps args b1 = Inr b2" "nestedFiltersStep maps args b2 = Inr b3"
      "optionalFieldsStep args b3 = Inr b4" "groupingsStep maps args b4 = Inr b5"
      "nestedGroupingsStep maps args b5 = Inl e"
  using assms by (auto simp: buildDocument_def split: sum.splits)

lemma withoutGroupings_failure:
  assumes "assembleDocument env conn (withoutGroupings args) = Inl e"
  shows "assembleDocument env conn args = Inl e"
proof (cases "resolveFolder conn args")
  case (Inl e')
  with assms show ?thesis by (simp add: assembleDocument_def withoutGroupings_steps)
next
  case (Inr folder)
  with assms have b: "buildDocument env conn (withoutGroupings args) folder = Inl e"
    by (simp add: assembleDocument_def withoutGroupings_steps)
  have "buildDocument env conn args folder = Inl e"
    using b
  proof (cases rule: buildDocument_Inl_cases)
    case (6 maps b1 b2 b3 b4)
    with withoutGroupings_groupingsStep[of maps args b4] show ?thesis by simp
  next
    case (7 maps b1 b2 b3 b4 b5)
    with withoutGroupings_nestedGroupingsStep[of maps args b5] show ?thesis by simp
  qed (simp_all add: buildDocument_def withoutGroupings_steps)
  with Inr show ?thesis by (simp add: assembleDocument_def)
qed

lemma grouping_failure:
  assumes "assembleDocument env conn args = Inl e"
  shows "assembleDocument env conn (withoutGroupings args) = Inl e
       \<or> (e = TypeError ''Cannot read properties of null (reading 'name')''
          \<and> (None \<in> set (elems (groupingsDown args))
             \<or> None \<in> set (elems (nested md_groupingsDown args))))"
proof (cases "resolveFolder conn args")
  case (Inl e')
  with assms show ?thesis by (simp add: assembleDocument_def withoutGroupings_steps)
next
  case (Inr folder)
  with assms have b: "buildDocument env conn args folder = Inl e"
    by (simp add: assembleDocument_def)
  have w: "assembleDocument env conn (withoutGroupings args) =
             buildDocument env conn (withoutGroupings args) folder"
    using Inr by (simp add: assembleDocument_def withoutGroupings_steps)
  from b show ?thesis
  proof (cases rule: buildDocument_Inl_cases)
    case (6 maps b1 b2 b3 b4)
    with groupingsStep_Inl show ?thesis by blast
  next
    case (7 maps b1 b2 b3 b4 b5)
    with nestedGroupingsStep_Inl show ?thesis by blast
  qed (simp_all add: w buildDocument_def withoutGroupings_steps)
qed

lemma null_entry_fails:
  assumes "None \<in> set (elems (groupingsDown args))
         \<or> None \<in> set (elems (nested md_groupingsDown args))"
  shows "isl (assembleDocument env conn args)"
proof (rule ccontr)
  assume "\<not> isl (assembleDocument env conn args)"
  then obtain doc where "assembleDocument env conn args = Inr doc"
    by (cases "assembleDocument env conn args") auto
  from assembleDocument_InrD[OF this] obtain folder where
    "buildDocument env conn args folder = Inr doc" by blast
  then obtain maps b4 b5 b6 where
    s5: "groupingsStep maps args b4 = Inr b5" and
    s6: "nestedGroupingsStep maps args b5 = Inr b6"
    by (auto simp: buildDocument_def split: sum.splits)
  from assms show False
  proof
    assume "None \<in> set (elems (groupingsDown args))"
    from groupingsStep_null[OF this, of maps b4] s5 show False by simp
  next
    assume "None \<in> set (elems (nested md_groupingsDown args))"
    from nestedGroupingsStep_null[OF this, of maps b5] s6 show False by simp
  qed
qed

lemma unknown_grouping_name:
  assumes "g_name f = Some n" and "noMapping (fieldMap maps) n"
  shows "map_sum id gs_name (fromGrouping maps (Some f)) =
           Inr (Some (if n \<in> set objectPrototypeNames then Inherited n
                      else Canonical (toUpperCase n)))"
    and "map_sum id gs_name (fromNestedGrouping maps (Some f)) =
           Inr (Some (if n \<in> set objectPrototypeNames then Inherited n
                      else Canonical (toUpperCase n)))"
proof -
  note m = mapToCanonical_noMapping[OF assms(2)]
  have e: "n = [] \<Longrightarrow> n \<notin> set objectPrototypeNames"
    by (auto simp: objectPrototypeNames_def)
  show "map_sum id gs_name (fromGrouping maps (Some f)) =
           Inr (Some (if n \<in> set objectPrototypeNames then Inherited n
                      else Canonical (toUpperCase n)))"
    using assms(1) m e
    by (cases "n = []") (auto simp: fromGrouping_def groupingName_def toUpperCase_def)
  show "map_sum id gs_name (fromNestedGrouping maps (Some f)) =
           Inr (Some (if n \<in> set objectPrototypeNames then Inherited n
                      else Canonical (toUpperCase n)))"
    using assms(1) m by (simp add: fromNestedGrouping_def)
qed

text \<open>
  C2, as the source has it. \<open>throwIfInvalidFields\<close> is called for columns and for filter
  fields only (its \<open>kind\<close> is \<open>'column' | 'filter'\<close>); a grouping name goes through
  \<open>mapToCanonicalReportField\<close> alone. So for every invocation that assembles a document,
  \<open>groupingsDown\<close> is the chosen source (the nested object's when non-empty, else the
  argument) with every name canonicalized, and \<open>groupingsAcross\<close> is the chosen source as it
  is. A name with no mapping into the index is not rejected: it becomes its upper-cased
  form, or, when it is the name of a member of \<open>Object.prototype\<close>, that member. The
  groupings never fail the assembly of the document with a validation error: an assembly
  that fails either fails in the same way with all its groupings removed, or fails with
  the \<open>TypeError\<close> of a null entry of \<open>groupingsDown\<close>, whose \<open>name\<close> cannot be read; and an
  assembly that fails without its groupings fails in the same way with them. (This is about
  the assembly; the creation request that follows may still be rejected by the remote
  side.)
\<close>

theorem groupings_are_not_validated:
  "(assembleDocument env conn args = Inr doc \<and> resolveMaps env conn args = Inr maps \<longrightarrow>
      Inr (doc_groupingsDown doc) =
        (if nonEmpty (nested md_groupingsDown args)
         then map_sum id Some
                (mapE (fromNestedGrouping maps) (elems (nested md_groupingsDown args)))
         else if nonEmpty (groupingsDown args)
         then map_sum id Some (mapE (fromGrouping maps) (elems (groupingsDown args)))
         else Inr None)
      \<and> doc_groupingsAcross doc =
        (if nonEmpty (nested md_groupingsAcross args) then nested md_groupingsAcross args
         else if nonEmpty (groupingsAcross args) then groupingsAcross args
         else None))
   \<and> (g_name f = Some n \<and> noMapping (fieldMap maps) n \<longrightarrow>
        map_sum id gs_name (fromGrouping maps (Some f)) =
          Inr (Some (if n \<in> set objectPrototypeNames then Inherited n
                     else Canonical (toUpperCase n)))
        \<and> map_sum id gs_name (fromNestedGrouping maps (Some f)) =
          Inr (Some (if n \<in> set objectPrototypeNames then Inherited n
                     else Canonical (toUpperCase n))))
   \<and> (assembleDocument env conn args = Inl e \<longrightarrow>
        assembleDocument env conn (withoutGroupings args) = Inl e
        \<or> (e = TypeError ''Cannot read properties of null (reading 'name')''
           \<and> (None \<in> set (elems (groupingsDown args))
              \<or> None \<in> set (elems (nested md_groupingsDown args)))))
   \<and> (assembleDocument env conn (withoutGroupings args) = Inl e \<longrightarrow>
        assembleDocument env conn args = Inl e)
   \<and> (None \<in> set (elems (groupingsDown args))
        \<or> None \<in> set (elems (nested md_groupingsDown args)) \<longrightarrow>
        isl (assembleDocument env conn args))"
proof (intro conjI impI)
  assume a: "assembleDocument env conn args = Inr doc \<and> resolveMaps env conn args = Inr maps"
  then obtain folder where b: "buildDocument env conn args folder = Inr doc"
    using assembleDocument_InrD by blast
  from a have m: "resolveMaps env conn args = Inr maps" by simp
  show "Inr (doc_groupingsDown doc) =
        (if nonEmpty (nested md_groupingsDown args)
         then map_sum id Some
                (mapE (fromNestedGrouping maps) (elems (nested md_groupingsDown args)))
         else if nonEmpty (groupingsDown args)
         then map_sum id Some (mapE (fromGrouping maps) (elems (groupingsDown args)))
         else Inr None)"
    by (rule buildDocument_fields(5)[OF b m])
  show "doc_groupingsAcross doc =
        (if nonEmpty (nested md_groupingsAcross args) then nested md_groupingsAcross args
         else if nonEmpty (groupingsAcross args) then groupingsAcross args
         else None)"
    by (rule buildDocument_fields(6)[OF b m])
next
  assume "g_name f = Some n \<and> noMapping (fieldMap maps) n"
  then show "map_sum id gs_name (fromGrouping maps (Some f)) =
          Inr (Some (if n \<in> set objectPrototypeNames then Inherited n
                     else Canonical (toUpperCase n)))"
    using unknown_grouping_name(1) by blast
next
  assume "g_name f = Some n \<and> noMapping (fieldMap maps) n"
  then show "map_sum id gs_name (fromNestedGrouping maps (Some f)) =
          Inr (Some (if n \<in> set objectPrototypeNames then Inherited n
                     else Canonical (toUpperCase n)))"
    using unknown_grouping_name(2) by blast
next
  assume "assembleDocument env conn args = Inl e"
  then show "assembleDocument env conn (withoutGroupings args) = Inl e
        \<or> (e = TypeError ''Cannot read properties of null (reading 'name')''
           \<and> (None \<in> set (elems (groupingsDown args))
              \<or> None \<in> set (elems (nested md_groupingsDown args))))"
    by (rule grouping_failure)
next
  assume "assembleDocument env conn (withoutGroupings args) = Inl e"
  then show "assembleDocument env conn args = Inl e"
    by (rule withoutGroupings_failure)
next
  assume "None \<in> set (elems (groupingsDown args))
        \<or> None \<in> set (elems (nested md_groupingsDown args))"
  then show "isl (assembleDocument env conn args)"
    by (rule null_entry_fails)
qed

text \<open>The witness: a grouping on \<open>Bogus_Field\<close>, alone and next to an unknown column; a
  grouping on \<open>constructor\<close>; a null entry.\<close>

theorem groupings_are_not_validated_witness:
  "resolveMaps exampleEnv exampleConn bogusGroupingArgs = Inr accountMaps
   \<and> noMapping (fieldMap accountMaps) ''Bogus_Field''
   \<and> doc_groupingsDown (projr (assembleDocument exampleEnv exampleConn bogusGroupingArgs)) =
       Some [\<lparr>gs_name = Some (Canonical ''BOGUS_FIELD''), gs_sortOrder = ''Asc'',
              gs_sortAggregate = None, gs_dateGranularity = ''None''\<rparr>]
   \<and> doc_groupingsAcross (projr (assembleDocument exampleEnv exampleConn bogusGroupingArgs)) = None
   \<and> noMapping (fieldMap accountMaps) ''constructor''
   \<and> map_sum id gs_name
       (fromGrouping accountMaps
          (Some \<lparr>g_name = Some ''constructor'', g_sortOrder = None, g_sortAggregate = None,
                 g_dateGranularity = None\<rparr>)) =
       Inr (Some (Inherited ''constructor''))
   \<and> assembleDocument exampleEnv exampleConn bogusBothArgs =
       Inl (Error (invalidFieldMessage ''BOGUS_FIELD'' ColumnKind [''AccountName'', ''TYPE'', ''RATING'']))
   \<and> assembleDocument exampleEnv exampleConn (withoutGroupings bogusBothArgs) =
       Inl (Error (invalidFieldMessage ''BOGUS_FIELD'' ColumnKind [''AccountName'', ''TYPE'', ''RATING'']))
   \<and> None \<in> set (elems (groupingsDown nullGroupingArgs))
   \<and> isl (assembleDocument exampleEnv exampleConn nullGroupingArgs)
   \<and> \<not> isl (assembleDocument exampleEnv exampleConn (withoutGroupings nullGroupingArgs))"
proof -
  let ?g = "\<lparr>g_name = Some ''Bogus_Field'', g_sortOrder = None, g_sortAggregate = None,
             g_dateGranularity = None\<rparr>"
  let ?c = "\<lparr>g_name = Some ''constructor'', g_sortOrder = None, g_sortAggregate = None,
             g_dateGranularity = None\<rparr>"
  let ?e = "Error (invalidFieldMessage ''BOGUS_FIELD'' ColumnKind [''AccountName'', ''TYPE'', ''RATING''])"
  let ?doc = "projr (assembleDocument exampleEnv exampleConn bogusGroupingArgs)"
  have a: "assembleDocument exampleEnv exampleConn bogusGroupingArgs = Inr ?doc"
    by (rule assembled_projr) code_simp
  have m: "resolveMaps exampleEnv exampleConn bogusGroupingArgs = Inr accountMaps" by code_simp
  have n: "noMapping (fieldMap accountMaps) ''Bogus_Field''" by code_simp
  have nc: "noMapping (fieldMap accountMaps) ''constructor''" by code_simp
  have ic: "''constructor'' \<in> set objectPrototypeNames" by (simp add: objectPrototypeNames_def)
  have f: "assembleDocument exampleEnv exampleConn bogusBothArgs = Inl ?e" by code_simp
  have z: "None \<in> set (elems (groupingsDown nullGroupingArgs))" by code_simp
  have w: "\<not> isl (assembleDocument exampleEnv exampleConn (withoutGroupings nullGroupingArgs))"
    by code_simp
  have d: "(if nonEmpty (nested md_groupingsDown bogusGroupingArgs)
         then map_sum id Some
                (mapE (fromNestedGrouping accountMaps)
                   (elems (nested md_groupingsDown bogusGroupingArgs)))
         else if nonEmpty (groupingsDown bogusGroupingArgs)
         then map_sum id Some
                (mapE (fromGrouping accountMaps) (elems (groupingsDown bogusGroupingArgs)))
         else Inr None) =
       Inr (Some [\<lparr>gs_name = Some (Canonical ''BOGUS_FIELD''), gs_sortOrder = ''Asc'',
                   gs_sortAggregate = None, gs_dateGranularity = ''None''\<rparr>])"
    by code_simp
  have c: "(if nonEmpty (nested md_groupingsAcross bogusGroupingArgs)
         then nested md_groupingsAcross bogusGroupingArgs
         else if nonEmpty (groupingsAcross bogusGroupingArgs) then groupingsAcross bogusGroupingArgs
         else None) = None"
    by code_simp
  note t1 = groupings_are_not_validated[of exampleEnv exampleConn bogusGroupingArgs ?doc
      accountMaps ?c "''constructor''"]
  note t2 = groupings_are_not_validated[of exampleEnv exampleConn bogusBothArgs _ _ _ _ ?e]
  note t3 = groupings_are_not_validated[of exampleEnv exampleConn nullGroupingArgs]
  from t1 a m d have d1: "doc_groupingsDown ?doc =
       Some [\<lparr>gs_name = Some (Canonical ''BOGUS_FIELD''), gs_sortOrder = ''Asc'',
              gs_sortAggregate = None, gs_dateGranularity = ''None''\<rparr>]"
    by (simp only: sum.inject simp_thms)
  from t1 a m c have d2: "doc_groupingsAcross ?doc = None"
    by (simp only: simp_thms)
  from t1 nc ic have d3: "map_sum id gs_name (fromGrouping accountMaps (Some ?c)) =
       Inr (Some (Inherited ''constructor''))"
    by simp
  from t2 f have d4: "assembleDocument exampleEnv exampleConn (withoutGroupings bogusBothArgs) =
       Inl ?e"
    by auto
  from t3 z have d5: "isl (assembleDocument exampleEnv exampleConn nullGroupingArgs)"
    by blast
  from m n d1 d2 nc d3 f d4 z d5 w show ?thesis by blast
qed

text \<open>C2 as stated fails: a grouping name absent from the index yields a document.\<close>

theorem unknown_grouping_is_accepted:
  "noMapping (fieldMap accountMaps) ''Bogus_Field''
   \<and> map_sum id doc_groupingsDown (assembleDocument exampleEnv exampleConn bogusGroupingArgs) =
       Inr (Some [\<lparr>gs_name = Some (Canonical ''BOGUS_FIELD''), gs_sortOrder = ''Asc'',
                   gs_sortAggregate = None, gs_dateGranularity = ''None''\<rparr>])"
  by code_simp

subsection \<open>The folder reference\<close>

text \<open>
  C5, as the source has it. The \<open>folderId\<close> argument, when not empty, is written over the
  folder found (lines 569--572), so the fallback decides the folder reference only for an
  invocation without it: if no \<open>folderId\<close> is supplied and the lookup by \<open>folderName\<close> finds
  no report folder, then with at least one report folder in the organization the
  document's folder reference is the first such folder's id, and with none it is absent;
  in both cases the folder step raises nothing and the assembly goes on with that
  reference.
\<close>

theorem folder_fallback_without_folderId:
  assumes "\<not> truthyStr (folderId args)"
    and "query conn (folderQuery args) = Inr folderRes" and "\<not> hasRecords folderRes"
    and "query conn anyFolderQuery = Inr (Records rs)"
  shows "resolveFolder conn args = Inr (case rs of [] \<Rightarrow> None | r # rest \<Rightarrow> Some (Id r))
       \<and> assembleDocument env conn args =
           buildDocument env conn args (case rs of [] \<Rightarrow> None | r # rest \<Rightarrow> Some (Id r))
       \<and> (assembleDocument env conn args = Inr doc \<longrightarrow>
            doc_folderId doc = (case rs of [] \<Rightarrow> None | r # rest \<Rightarrow> Some (Id r)))"
proof -
  have fi: "firstId (Records rs) = (case rs of [] \<Rightarrow> None | r # rest \<Rightarrow> Some (Id r))"
    by (cases rs) auto
  have r: "resolveFolder conn args = Inr (case rs of [] \<Rightarrow> None | r # rest \<Rightarrow> Some (Id r))"
    using assms(2,3,4) by (simp add: resolveFolder_def fi)
  then have b: "assembleDocument env conn args =
           buildDocument env conn args (case rs of [] \<Rightarrow> None | r # rest \<Rightarrow> Some (Id r))"
    by (simp add: assembleDocument_def)
  have "doc_folderId doc = (case rs of [] \<Rightarrow> None | r # rest \<Rightarrow> Some (Id r))"
    if d: "assembleDocument env conn args = Inr doc"
  proof -
    from d b have bd: "buildDocument env conn args
        (case rs of [] \<Rightarrow> None | r # rest \<Rightarrow> Some (Id r)) = Inr doc" by simp
    from assembleDocument_InrD[OF d] obtain maps where
      "resolveMaps env conn args = Inr maps" by blast
    from buildDocument_fields(1)[OF bd this] assms(1) show ?thesis by simp
  qed
  with r b show ?thesis by blast
qed

text \<open>The witness: a folder name nobody has, in an organization with one report folder and
  in one with none.\<close>

theorem folder_fallback_without_folderId_witness:
  "\<not> truthyStr (folderId namedFolderArgs)
   \<and> query exampleConn (folderQuery namedFolderArgs) = Inr (Records [])
   \<and> query exampleConn anyFolderQuery = Inr (Records [publicReports])
   \<and> resolveFolder exampleConn namedFolderArgs = Inr (Some ''00l000000000001AAA'')
   \<and> doc_folderId (projr (assembleDocument exampleEnv exampleConn namedFolderArgs)) =
       Some ''00l000000000001AAA''
   \<and> query emptyOrgConn (folderQuery namedFolderArgs) = Inr (Records [])
   \<and> query emptyOrgConn anyFolderQuery = Inr (Records [])
   \<and> resolveFolder emptyOrgConn namedFolderArgs = Inr None
   \<and> \<not> isl (assembleDocument exampleEnv emptyOrgConn namedFolderArgs)
   \<and> doc_folderId (projr (assembleDocument exampleEnv emptyOrgConn namedFolderArgs)) = None"
proof -
  have t: "\<not> truthyStr (folderId namedFolderArgs)" by code_simp
  have q1: "query exampleConn (folderQuery namedFolderArgs) = Inr (Records [])" by code_simp
  have h1: "\<not> hasRecords (Records [])" by simp
  have q2: "query exampleConn anyFolderQuery = Inr (Records [publicReports])" by code_simp
  have q3: "query emptyOrgConn (folderQuery namedFolderArgs) = Inr (Records [])" by code_simp
  have q4: "query emptyOrgConn anyFolderQuery = Inr (Records [])" by code_simp
  have a1: "assembleDocument exampleEnv exampleConn namedFolderArgs =
              Inr (projr (assembleDocument exampleEnv exampleConn namedFolderArgs))"
    by (rule assembled_projr) code_simp
  have n2: "\<not> isl (assembleDocument exampleEnv emptyOrgConn namedFolderArgs)" by code_simp
  have a2: "assembleDocument exampleEnv emptyOrgConn namedFolderArgs =
              Inr (projr (assembleDocument exampleEnv emptyOrgConn namedFolderArgs))"
    by (rule assembled_projr) (rule n2)
  have i: "Id publicReports = ''00l000000000001AAA''" by (simp add: publicReports_def)
  note w1 = folder_fallback_without_folderId[OF t q1 h1 q2, of exampleEnv
      "projr (assembleDocument exampleEnv exampleConn namedFolderArgs)"]
  note w2 = folder_fallback_without_folderId[OF t q3 h1 q4, of exampleEnv
      "projr (assembleDocument exampleEnv emptyOrgConn namedFolderArgs)"]
  from w1 i have r1: "resolveFolder exampleConn namedFolderArgs = Inr (Some ''00l000000000001AAA'')"
    by simp
  from w1 a1 i have d1:
    "doc_folderId (projr (assembleDocument exampleEnv exampleConn namedFolderArgs)) =
       Some ''00l000000000001AAA''"
    by auto
  from w2 have r2: "resolveFolder emptyOrgConn namedFolderArgs = Inr None" by simp
  from w2 a2 have d2:
    "doc_folderId (projr (assembleDocument exampleEnv emptyOrgConn namedFolderArgs)) = None"
    by auto
  from t q1 q2 q3 q4 r1 d1 r2 n2 d2 show ?thesis by blast
qed

text \<open>C5 as stated fails when a \<open>folderId\<close> is supplied that no folder has: the document
  carries that id, not the id of the organization's report folder.\<close>

theorem supplied_folderId_beats_fallback:
  "query exampleConn (folderQuery strayFolderArgs) = Inr (Records [])
   \<and> query exampleConn anyFolderQuery = Inr (Records [publicReports])
   \<and> Id publicReports = ''00l000000000001AAA''
   \<and> map_sum id doc_folderId (assembleDocument exampleEnv exampleConn strayFolderArgs) =
       Inr (Some ''00l000000000999AAA'')
   \<and> map_sum id doc_folderId (assembleDocument exampleEnv exampleConn strayFolderArgs) \<noteq>
       Inr (Some (Id publicReports))"
  by code_simp

text \<open>
  C10. For every invocation that supplies a non-empty \<open>folderId\<close> and assembles a document,
  the document's \<open>folderId\<close> is that argument, whatever folder the lookup found.
\<close>

theorem supplied_folderId_is_verbatim:
  assumes "assembleDocument env conn args = Inr doc"
    and "folderId args = Some f" and "f \<noteq> []"
  shows "doc_folderId doc = Some f"
proof -
  from assembleDocument_InrD[OF assms(1)] obtain folder maps where
    "buildDocument env conn args folder = Inr doc" "resolveMaps env conn args = Inr maps"
    by blast
  from buildDocument_fields(1)[OF this] assms(2,3) show ?thesis by (simp add: truthyStr_def)
qed

text \<open>The witness: a \<open>folderId\<close> no folder has; the lookup falls back to the organization's
  report folder, and the document carries the argument.\<close>

theorem supplied_folderId_is_verbatim_witness:
  "folderId otherFolderArgs = Some ''00l000000000777AAA''
   \<and> resolveFolder exampleConn otherFolderArgs = Inr (Some ''00l000000000001AAA'')
   \<and> doc_folderId (projr (assembleDocument exampleEnv exampleConn otherFolderArgs)) =
       Some ''00l000000000777AAA''"
proof -
  have a: "assembleDocument exampleEnv exampleConn otherFolderArgs =
              Inr (projr (assembleDocument exampleEnv exampleConn otherFolderArgs))"
    by (rule assembled_projr) code_simp
  have f: "folderId otherFolderArgs = Some ''00l000000000777AAA''" by code_simp
  have r: "resolveFolder exampleConn otherFolderArgs = Inr (Some ''00l000000000001AAA'')"
    by code_simp
  from supplied_folderId_is_verbatim[OF a f] f r show ?thesis by simp
qed

subsection \<open>The developer name\<close>

text \<open>
  C9. For every invocation that assembles a document: a supplied \<open>developerName\<close> string is
  used unchanged, and without one the developer name is the report name with every
  character that is not one of the letters \<open>a\<close> to \<open>z\<close> and \<open>A\<close> to \<open>Z\<close>, the digits \<open>0\<close> to
  \<open>9\<close> and the underscore replaced by an underscore, the others kept in place; so
  \<open>My Report!\<close> gives \<open>My_Report_\<close>.
\<close>

theorem developerName_supplied_or_derived:
  assumes "assembleDocument env conn args = Inr doc"
  shows "doc_developerName doc =
           (case developerName args of
              Some dn \<Rightarrow> Some dn
            | None \<Rightarrow>
                (case reportName args of
                   Some rn \<Rightarrow>
                     Some (map (\<lambda>c. if c \<in> set (''abcdefghijklmnopqrstuvwxyz''
                                              @ ''ABCDEFGHIJKLMNOPQRSTUVWXYZ'' @ ''0123456789_'')
                                    then c else CHR ''_'') rn)
                 | None \<Rightarrow> None))
       \<and> doc_developerName doc \<noteq> None
       \<and> (developerName args = None \<and> reportName args = Some ''My Report!'' \<longrightarrow>
            doc_developerName doc = Some ''My_Report_'')
       \<and> (developerName args = None \<and> reportName args = Some ''Q3: R&D 100%'' \<longrightarrow>
            doc_developerName doc = Some ''Q3__R_D_100_'')"
proof -
  from assembleDocument_InrD[OF assms(1)] obtain folder maps where
    b: "buildDocument env conn args folder = Inr doc" "resolveMaps env conn args = Inr maps"
    by blast
  have r: "replaceNonWord rn =
             map (\<lambda>c. if c \<in> set (''abcdefghijklmnopqrstuvwxyz''
                                  @ ''ABCDEFGHIJKLMNOPQRSTUVWXYZ'' @ ''0123456789_'')
                      then c else CHR ''_'') rn" for rn
    by (simp add: replaceNonWord_def isWordChar_def)
  have e1: "replaceNonWord ''My Report!'' = ''My_Report_''"
    by (simp add: replaceNonWord_def isWordChar_def)
  have e2: "replaceNonWord ''Q3: R&D 100%'' = ''Q3__R_D_100_''"
    by (simp add: replaceNonWord_def isWordChar_def)
  note d = buildDocument_fields(2,3)[OF b]
  from d(1) have "doc_developerName doc =
           (case developerName args of
              Some dn \<Rightarrow> Some dn
            | None \<Rightarrow>
                (case reportName args of
                   Some rn \<Rightarrow>
                     Some (map (\<lambda>c. if c \<in> set (''abcdefghijklmnopqrstuvwxyz''
                                              @ ''ABCDEFGHIJKLMNOPQRSTUVWXYZ'' @ ''0123456789_'')
                                    then c else CHR ''_'') rn)
                 | None \<Rightarrow> None))"
    by (cases "developerName args"; cases "reportName args")
       (simp_all only: option.case option.map r)
  moreover from d(1) e1 have "developerName args = None \<and> reportName args = Some ''My Report!'' \<longrightarrow>
            doc_developerName doc = Some ''My_Report_''"
    by (simp only: option.case option.map simp_thms) simp
  moreover from d(1) e2 have "developerName args = None \<and> reportName args = Some ''Q3: R&D 100%'' \<longrightarrow>
            doc_developerName doc = Some ''Q3__R_D_100_''"
    by (simp only: option.case option.map simp_thms) simp
  ultimately show ?thesis using d(2) by blast
qed

text \<open>The witness: the report \<open>My Report!\<close> without and with a developer name.\<close>

theorem developerName_supplied_or_derived_witness:
  "developerName baseArgs = None \<and> reportName baseArgs = Some ''My Report!''
   \<and> doc_developerName (projr (assembleDocument exampleEnv exampleConn baseArgs)) =
       Some ''My_Report_''
   \<and> developerName namedArgs = Some ''Quarterly Report''
   \<and> doc_developerName (projr (assembleDocument exampleEnv exampleConn namedArgs)) =
       Some ''Quarterly Report''"
proof -
  have a1: "assembleDocument exampleEnv exampleConn baseArgs =
              Inr (projr (assembleDocument exampleEnv exampleConn baseArgs))"
    by (rule assembled_projr) code_simp
  have a2: "assembleDocument exampleEnv exampleConn namedArgs =
              Inr (projr (assembleDocument exampleEnv exampleConn namedArgs))"
    by (rule assembled_projr) code_simp
  have d1: "developerName baseArgs = None" and r1: "reportName baseArgs = Some ''My Report!''"
    and d2: "developerName namedArgs = Some ''Quarterly Report''"
    by (simp_all add: baseArgs_def namedArgs_def)
  from developerName_supplied_or_derived[OF a1] d1 r1
  have x1: "doc_developerName (projr (assembleDocument exampleEnv exampleConn baseArgs)) =
       Some ''My_Report_''"
    by blast
  from developerName_supplied_or_derived[OF a2] d2
  have x2: "doc_developerName (projr (assembleDocument exampleEnv exampleConn namedArgs)) =
       Some ''Quarterly Report''"
    by simp
  from d1 r1 x1 d2 x2 show ?thesis by blast
qed

subsection \<open>The boundary of the handler\<close>

text \<open>
  C6, as the source has it. The arguments are destructured before the \<open>try\<close> block, so an
  absent or null argument object raises a \<open>TypeError\<close> that leaves \<open>handleCreateReport\<close>; it
  is the \<open>catch\<close> of the request handler in \<open>index.ts\<close> that turns it into an envelope. For
  every argument object that is present, \<open>handleCreateReport\<close> returns an envelope, and
  every failure inside the \<open>try\<close> block, those of the schema fetch and of validation
  included, becomes the envelope with the message \<open>Error creating report: \<dots>\<close> and the error
  flag set.
\<close>

theorem handler_returns_an_envelope:
  "(\<exists>r. handleCreateReport env conn (Some a) = Inr r)
   \<and> (createReportBody env conn a = Inl e \<longrightarrow>
        handleCreateReport env conn (Some a) =
          Inr \<lparr>content_text = ''Error creating report: '' @ message e, isError = True\<rparr>)
   \<and> (assembleDocument env conn a = Inl e \<longrightarrow> createReportBody env conn a = Inl e)
   \<and> callCreateReport env (Inr conn) (Some None) =
       \<lparr>content_text =
          ''Error: Cannot destructure property 'reportName' of 'args' as it is undefined.'',
        isError = True\<rparr>"
  by (auto simp: handleCreateReport_def caughtEnvelope_def createReportBody_def
      assembleDocument_def callCreateReport_def dispatchedEnvelope_def split: sum.splits)

text \<open>The witness: an unknown column, and a rejected schema fetch.\<close>

theorem handler_returns_an_envelope_witness:
  "assembleDocument exampleEnv exampleConn bogusColumnArgs =
     Inl (Error (invalidFieldMessage ''BOGUS_FIELD'' ColumnKind [''AccountName'', ''TYPE'', ''RATING'']))
   \<and> handleCreateReport exampleEnv exampleConn (Some bogusColumnArgs) =
       Inr \<lparr>content_text = ''Error creating report: ''
              @ invalidFieldMessage ''BOGUS_FIELD'' ColumnKind [''AccountName'', ''TYPE'', ''RATING''],
            isError = True\<rparr>
   \<and> assembleDocument exampleEnv offlineConn baseArgs =
       Inl (Error ''Failed to fetch report type metadata for 'AccountList': socket hang up'')
   \<and> handleCreateReport exampleEnv offlineConn (Some baseArgs) =
       Inr \<lparr>content_text =
              ''Error creating report: Failed to fetch report type metadata for 'AccountList': socket hang up'',
            isError = True\<rparr>"
proof -
  let ?e1 = "Error (invalidFieldMessage ''BOGUS_FIELD'' ColumnKind [''AccountName'', ''TYPE'', ''RATING''])"
  let ?e2 = "Error ''Failed to fetch report type metadata for 'AccountList': socket hang up''"
  have a1: "assembleDocument exampleEnv exampleConn bogusColumnArgs = Inl ?e1" by code_simp
  have a2: "assembleDocument exampleEnv offlineConn baseArgs = Inl ?e2" by code_simp
  from handler_returns_an_envelope[of exampleEnv exampleConn bogusColumnArgs ?e1]
    handler_returns_an_envelope[of exampleEnv offlineConn baseArgs ?e2] a1 a2
  show ?thesis by simp
qed

text \<open>C6 as stated fails on an absent argument object.\<close>

theorem absent_arguments_escape_the_handler:
  "handleCreateReport exampleEnv exampleConn None =
     Inl (TypeError ''Cannot destructure property 'reportName' of 'args' as it is undefined.'')"
  by code_simp

end
